theory Spec2Isabelle
  imports Complex_Main
begin

section \<open>Tensors and the framework\<close>

text \<open>
  The source (\<^verbatim>\<open>asr/densenet/network.py\<close>) assembles a DenseNet from the modules of a
  tensor framework. A tensor is its shape and its elements in row-major order. The
  element type \<open>'a\<close> stands for the framework's floating-point numbers: this development
  never computes with them, every numeric value is produced by a framework operation.
\<close>

datatype error = RuntimeError | ValueError

datatype 'a tensor = Tensor (shape: "nat list") (data: "'a list")

definition numel :: "'a tensor \<Rightarrow> nat" where
  "numel t = prod_list (shape t)"

text \<open>A tensor of the framework: as many elements as the shape says, no empty dimension.\<close>

definition tensor_ok :: "'a tensor \<Rightarrow> bool" where
  "tensor_ok t = (length (data t) = prod_list (shape t) \<and> list_all (\<lambda>d. 0 < d) (shape t))"

text \<open>
  The layers of \<^verbatim>\<open>torch.nn\<close> that the source instantiates, with their constructor
  arguments: \<open>Conv2d in out kernel_size stride padding bias\<close>, \<open>BatchNorm2d num_features\<close>,
  \<open>MaxPool2d kernel_size stride padding\<close>, \<open>AvgPool2d kernel_size stride padding\<close>,
  \<open>Linear in out\<close>. A stride is a pair (height, width); an integer stride \<open>s\<close> is \<open>(s, s)\<close>.
\<close>

datatype layer =
    Conv2d nat nat nat "nat \<times> nat" nat bool
  | BatchNorm2d nat
  | MaxPool2d nat "nat \<times> nat" nat
  | AvgPool2d nat "nat \<times> nat" nat
  | Linear nat nat

text \<open>
  What the source takes from outside: the numeric operations of the framework, its random
  number generator (a state of type \<open>'g\<close>) and \<^verbatim>\<open>pyro.nn.ClippedSoftmax\<close>. They are
  parameters. An operation that fills a tensor gives the element at each flat index, so
  that the shape of its result is the one the framework documents.
  \<^item> \<open>fw_sigmoid\<close>: \<^verbatim>\<open>F.sigmoid\<close> on one element;
  \<^item> \<open>fw_layer l training params buffers x i\<close>: element \<open>i\<close> of the output of layer \<open>l\<close>;
  \<^item> \<open>fw_stats l buffers x j i\<close>: element \<open>i\<close> of buffer \<open>j\<close> (running mean, running
    variance) after a batch normalization in training mode;
  \<^item> \<open>fw_dropout p g x i\<close>: element \<open>i\<close> of \<^verbatim>\<open>F.dropout\<close> in training mode, drawn from
    generator state \<open>g\<close>;
  \<^item> \<open>fw_reset g l j i\<close>: element \<open>i\<close> of parameter \<open>j\<close> of a new layer \<open>l\<close> (the
    default initializer run by the layer's constructor);
  \<^item> \<open>fw_buffer l j i\<close>: element \<open>i\<close> of buffer \<open>j\<close> of a new layer;
  \<^item> \<open>fw_kaiming_normal g s i\<close>: element \<open>i\<close> of \<^verbatim>\<open>nn.init.kaiming_normal\<close> on a
    tensor of shape \<open>s\<close>;
  \<^item> \<open>fw_next\<close>: the generator state after a draw;
  \<^item> \<open>fw_clipped_softmax eps x\<close>: \<^verbatim>\<open>ClippedSoftmax(eps, dim=1)(x)\<close>.
\<close>

record ('a, 'g) framework =
  fw_sigmoid :: "'a \<Rightarrow> 'a"
  fw_layer :: "layer \<Rightarrow> bool \<Rightarrow> 'a tensor list \<Rightarrow> 'a tensor list \<Rightarrow> 'a tensor \<Rightarrow> nat \<Rightarrow> 'a"
  fw_stats :: "layer \<Rightarrow> 'a tensor list \<Rightarrow> 'a tensor \<Rightarrow> nat \<Rightarrow> nat \<Rightarrow> 'a"
  fw_dropout :: "real \<Rightarrow> 'g \<Rightarrow> 'a tensor \<Rightarrow> nat \<Rightarrow> 'a"
  fw_reset :: "'g \<Rightarrow> layer \<Rightarrow> nat \<Rightarrow> nat \<Rightarrow> 'a"
  fw_buffer :: "layer \<Rightarrow> nat \<Rightarrow> nat \<Rightarrow> 'a"
  fw_kaiming_normal :: "'g \<Rightarrow> nat list \<Rightarrow> nat \<Rightarrow> 'a"
  fw_next :: "'g \<Rightarrow> 'g"
  fw_clipped_softmax :: "real \<Rightarrow> 'a tensor \<Rightarrow> error + 'a tensor"

definition new_tensor :: "(nat \<Rightarrow> 'a) \<Rightarrow> nat list \<Rightarrow> 'a tensor" where
  "new_tensor f s = Tensor s (map f [0..<prod_list s])"

subsection \<open>\<^verbatim>\<open>Tensor.view\<close>, \<^verbatim>\<open>torch.cat\<close>, \<^verbatim>\<open>Tensor.narrow\<close>\<close>

text \<open>
  \<^verbatim>\<open>x.view(*dim)\<close>: at most one dimension is the wildcard \<open>-1\<close>, which is inferred from
  the number of elements; the elements keep their order. It raises when the requested
  shape does not fit the number of elements.
\<close>

definition infer_size :: "int list \<Rightarrow> nat \<Rightarrow> error + nat list" where
  "infer_size dims n =
     (let known = prod_list (filter (\<lambda>d. d \<noteq> - 1) dims);
          wild = length (filter (\<lambda>d. d = - 1) dims)
      in if list_ex (\<lambda>d. d < - 1) dims then Inl RuntimeError
         else if wild = 0 then
           (if known = int n then Inr (map nat dims) else Inl RuntimeError)
         else if wild = 1 then
           (if 0 < known \<and> int n mod known = 0
            then Inr (map (\<lambda>d. if d = - 1 then n div nat known else nat d) dims)
            else Inl RuntimeError)
         else Inl RuntimeError)"

definition view :: "'a tensor \<Rightarrow> int list \<Rightarrow> error + 'a tensor" where
  "view x dims =
     (case infer_size dims (numel x) of
        Inl e \<Rightarrow> Inl e
      | Inr s \<Rightarrow> Inr (Tensor s (data x)))"

text \<open>
  \<open>chunk k xs i\<close> is the \<open>i\<close>-th block of \<open>k\<close> elements of \<open>xs\<close>. For a tensor of shape
  \<open>n # c # r\<close> the blocks of \<open>c * prod_list r\<close> elements are its samples.
\<close>

definition chunk :: "nat \<Rightarrow> 'a list \<Rightarrow> nat \<Rightarrow> 'a list" where
  "chunk k xs i = take k (drop (i * k) xs)"

text \<open>
  \<^verbatim>\<open>torch.cat([x, y], 1)\<close>: both tensors have the same shape except along dimension 1,
  and each sample of the result is the sample of \<open>x\<close> followed by the sample of \<open>y\<close>.
\<close>

fun cat_dim1 :: "'a tensor \<Rightarrow> 'a tensor \<Rightarrow> error + 'a tensor" where
  "cat_dim1 (Tensor (n # c # r) xs) (Tensor (n' # c' # r') ys) =
     (if n = n' \<and> r = r'
      then Inr (Tensor (n # (c + c') # r)
             (concat (map (\<lambda>i. chunk (c * prod_list r) xs i @ chunk (c' * prod_list r) ys i) [0..<n])))
      else Inl RuntimeError)"
| "cat_dim1 x y = Inl RuntimeError"

text \<open>
  \<^verbatim>\<open>x.narrow(1, start, len)\<close>: the channels \<open>start, ..., start + len - 1\<close> of every
  sample. It is used to state which channels of a result are which.
\<close>

fun narrow_dim1 :: "'a tensor \<Rightarrow> nat \<Rightarrow> nat \<Rightarrow> error + 'a tensor" where
  "narrow_dim1 (Tensor (n # c # r) xs) start len =
     (if start + len \<le> c
      then Inr (Tensor (n # len # r)
             (concat (map (\<lambda>i. take (len * prod_list r)
                                 (drop (start * prod_list r) (chunk (c * prod_list r) xs i))) [0..<n])))
      else Inl RuntimeError)"
| "narrow_dim1 x start len = Inl RuntimeError"

subsection \<open>The layers of the framework\<close>

text \<open>
  The shape of a layer's output, as the framework documents it; a layer raises on an
  input whose shape it does not accept. A convolution or a pooling over \<open>h\<close> rows with
  kernel \<open>k\<close>, stride \<open>s\<close> and padding \<open>p\<close> gives \<open>(h + 2 * p - k) div s + 1\<close> rows.
  A batch normalization in training mode needs more than one value per channel: on an
  input \<open>(n, c, h, w)\<close> with \<open>n * h * w = 1\<close> it raises \<^verbatim>\<open>ValueError\<close> (before it looks at the
  number of channels); in evaluation mode it accepts that input.
\<close>

definition window :: "nat \<Rightarrow> nat \<Rightarrow> nat \<Rightarrow> nat \<Rightarrow> nat" where
  "window h k s p = (h + 2 * p - k) div s + 1"

fun out_shape :: "bool \<Rightarrow> layer \<Rightarrow> nat list \<Rightarrow> error + nat list" where
  "out_shape training (Conv2d cin cout k (sh, sw) p b) [n, c, h, w] =
     (if c \<noteq> cin \<or> k = 0 \<or> sh = 0 \<or> sw = 0 \<or> h + 2 * p < k \<or> w + 2 * p < k
      then Inl RuntimeError
      else Inr [n, cout, window h k sh p, window w k sw p])"
| "out_shape training (Conv2d cin cout k st p b) s = Inl RuntimeError"
| "out_shape training (BatchNorm2d nf) [n, c, h, w] =
     (if training \<and> n * h * w = 1 then Inl ValueError
      else if c \<noteq> nf then Inl RuntimeError
      else Inr [n, c, h, w])"
| "out_shape training (BatchNorm2d nf) s = Inl ValueError"
| "out_shape training (MaxPool2d k (sh, sw) p) [n, c, h, w] =
     (if k = 0 \<or> sh = 0 \<or> sw = 0 \<or> k < 2 * p \<or> h + 2 * p < k \<or> w + 2 * p < k
      then Inl RuntimeError
      else Inr [n, c, window h k sh p, window w k sw p])"
| "out_shape training (MaxPool2d k st p) s = Inl RuntimeError"
| "out_shape training (AvgPool2d k (sh, sw) p) [n, c, h, w] =
     (if k = 0 \<or> sh = 0 \<or> sw = 0 \<or> k < 2 * p \<or> h + 2 * p < k \<or> w + 2 * p < k
      then Inl RuntimeError
      else Inr [n, c, window h k sh p, window w k sw p])"
| "out_shape training (AvgPool2d k st p) s = Inl RuntimeError"
| "out_shape training (Linear fin fout) s =
     (if s \<noteq> [] \<and> last s = fin then Inr (butlast s @ [fout]) else Inl RuntimeError)"

text \<open>The shapes of a new layer's parameters (weight, then bias) and buffers.\<close>

fun param_shapes :: "layer \<Rightarrow> nat list list" where
  "param_shapes (Conv2d cin cout k st p b) = [cout, cin, k, k] # (if b then [[cout]] else [])"
| "param_shapes (BatchNorm2d nf) = [[nf], [nf]]"
| "param_shapes (Linear fin fout) = [[fout, fin], [fout]]"
| "param_shapes (MaxPool2d k st p) = []"
| "param_shapes (AvgPool2d k st p) = []"

fun buffer_shapes :: "layer \<Rightarrow> nat list list" where
  "buffer_shapes (BatchNorm2d nf) = [[nf], [nf]]"
| "buffer_shapes l = []"

section \<open>The module tree\<close>

text \<open>
  A module is \<open>View dim\<close> or \<open>Swish\<close> (defined in the source), a layer of the framework
  with its parameters and its buffers, or a container with its named children in the
  order of registration: \<^verbatim>\<open>nn.Sequential\<close> and its subclasses \<^verbatim>\<open>_DenseLayer\<close> (which
  also stores \<open>drop_rate\<close>), \<^verbatim>\<open>_DenseBlock\<close> and \<^verbatim>\<open>_Transition\<close>.
\<close>

datatype 'a module =
    View "int list"
  | Swish
  | Torch layer "'a tensor list" "'a tensor list"
  | Sequential "(string \<times> 'a module) list"
  | DenseLayer "(string \<times> 'a module) list" real
  | DenseBlock "(string \<times> 'a module) list"
  | Transition "(string \<times> 'a module) list"

text \<open>
  \<^verbatim>\<open>add_module(name, module)\<close> stores into an ordered dictionary: a new name goes to
  the end, a name already there keeps its place and gets the new module.
\<close>

fun add_module :: "(string \<times> 'a module) list \<Rightarrow> string \<Rightarrow> 'a module \<Rightarrow> (string \<times> 'a module) list" where
  "add_module [] name m = [(name, m)]"
| "add_module ((k, v) # cs) name m =
     (if k = name then (k, m) # cs else (k, v) # add_module cs name m)"

text \<open>
  The constructor of a framework layer: a layer with parameters draws them from the
  generator, a layer without (a pooling) leaves the generator alone.
\<close>

definition torch_init :: "('a, 'g) framework \<Rightarrow> layer \<Rightarrow> 'g \<Rightarrow> 'a module \<times> 'g" where
  "torch_init fw l g =
     (Torch l
        (map (\<lambda>(j, s). new_tensor (fw_reset fw g l j) s) (enumerate 0 (param_shapes l)))
        (map (\<lambda>(j, s). new_tensor (fw_buffer fw l j) s) (enumerate 0 (buffer_shapes l))),
      if param_shapes l = [] then g else fw_next fw g)"

text \<open>Python's \<^verbatim>\<open>str\<close> of a natural number, for the generated names.\<close>

definition digit :: "nat \<Rightarrow> char" where
  "digit d = ''0123456789'' ! d"

fun str_nat :: "nat \<Rightarrow> string" where
  "str_nat n = (if n < 10 then [digit n] else str_nat (n div 10) @ [digit (n mod 10)])"

declare str_nat.simps [simp del]


section \<open>Forward passes\<close>

text \<open>
  A framework layer applied to \<open>x\<close>: the result (or the error) and the layer's buffers
  afterwards. Only batch normalization in training mode writes its buffers, and only when
  it does not raise; no layer writes its parameters.
\<close>

fun new_buffers :: "('a, 'g) framework \<Rightarrow> layer \<Rightarrow> 'a tensor list \<Rightarrow> 'a tensor \<Rightarrow> 'a tensor list" where
  "new_buffers fw (BatchNorm2d nf) bs x =
     map (\<lambda>(j, b). Tensor (shape b) (map (fw_stats fw (BatchNorm2d nf) bs x j) [0..<length (data b)]))
       (enumerate 0 bs)"
| "new_buffers fw l bs x = bs"

definition torch_forward ::
  "('a, 'g) framework \<Rightarrow> bool \<Rightarrow> layer \<Rightarrow> 'a tensor list \<Rightarrow> 'a tensor list \<Rightarrow> 'a tensor
     \<Rightarrow> (error + 'a tensor) \<times> 'a tensor list" where
  "torch_forward fw training l ps bs x =
     (case out_shape training l (shape x) of
        Inl e \<Rightarrow> (Inl e, bs)
      | Inr s \<Rightarrow> (Inr (new_tensor (fw_layer fw l training ps bs x) s),
                  if training then new_buffers fw l bs x else bs))"

text \<open>\<^verbatim>\<open>View.forward\<close>: \<^verbatim>\<open>return x.view(*self.dim)\<close>.\<close>

definition View_forward :: "int list \<Rightarrow> 'a tensor \<Rightarrow> error + 'a tensor" where
  "View_forward dims x = view x dims"

text \<open>\<^verbatim>\<open>Swish.forward\<close>: \<^verbatim>\<open>return x * F.sigmoid(x)\<close>, element by element.\<close>

definition Swish_forward :: "('a::times, 'g) framework \<Rightarrow> 'a tensor \<Rightarrow> 'a tensor" where
  "Swish_forward fw x = Tensor (shape x) (map (\<lambda>v. v * fw_sigmoid fw v) (data x))"

text \<open>
  \<^verbatim>\<open>F.dropout(x, p, training)\<close>: raises on a \<open>p\<close> outside \<open>[0, 1]\<close>; in training mode it
  draws from the generator, otherwise it returns \<open>x\<close>.
\<close>

definition dropout ::
  "('a, 'g) framework \<Rightarrow> 'a tensor \<Rightarrow> real \<Rightarrow> bool \<Rightarrow> 'g \<Rightarrow> (error + 'a tensor) \<times> 'g" where
  "dropout fw x p training g =
     (if p < 0 \<or> 1 < p then (Inl ValueError, g)
      else if training
        then (Inr (Tensor (shape x) (map (fw_dropout fw p g x) [0..<length (data x)])), fw_next fw g)
        else (Inr x, g))"

text \<open>
  The forward pass of a module on input \<open>x\<close>, with the mode \<open>training\<close> of the tree
  (\<^verbatim>\<open>train()\<close> and \<^verbatim>\<open>eval()\<close> set it on every module) and the generator state \<open>g\<close>. It
  returns the result or the raised error, the module afterwards and the generator
  afterwards. \<^verbatim>\<open>nn.Sequential.forward\<close> feeds each child's output to the next child, and an
  error stops it. \<^verbatim>\<open>_DenseLayer.forward\<close> is
  \<^verbatim>\<open>
    new_features = super().forward(x)
    if self.drop_rate > 0:
        new_features = F.dropout(new_features, p=self.drop_rate, training=self.training)
    return torch.cat([x, new_features], 1)
  \<close>
\<close>

fun forward ::
  "('a::times, 'g) framework \<Rightarrow> bool \<Rightarrow> 'a module \<Rightarrow> 'g \<Rightarrow> 'a tensor
     \<Rightarrow> (error + 'a tensor) \<times> 'a module \<times> 'g"
and forward_children ::
  "('a::times, 'g) framework \<Rightarrow> bool \<Rightarrow> (string \<times> 'a module) list \<Rightarrow> 'g \<Rightarrow> 'a tensor
     \<Rightarrow> (error + 'a tensor) \<times> (string \<times> 'a module) list \<times> 'g"
where
  "forward fw training (View dims) g x = (View_forward dims x, View dims, g)"
| "forward fw training Swish g x = (Inr (Swish_forward fw x), Swish, g)"
| "forward fw training (Torch l ps bs) g x =
     (case torch_forward fw training l ps bs x of (r, bs') \<Rightarrow> (r, Torch l ps bs', g))"
| "forward fw training (Sequential cs) g x =
     (case forward_children fw training cs g x of (r, cs', g') \<Rightarrow> (r, Sequential cs', g'))"
| "forward fw training (DenseLayer cs drop_rate) g x =
     (case forward_children fw training cs g x of
        (Inl e, cs', g') \<Rightarrow> (Inl e, DenseLayer cs' drop_rate, g')
      | (Inr new_features, cs', g') \<Rightarrow>
          (case (if 0 < drop_rate then dropout fw new_features drop_rate training g'
                 else (Inr new_features, g')) of
             (Inl e, g'') \<Rightarrow> (Inl e, DenseLayer cs' drop_rate, g'')
           | (Inr new_features', g'') \<Rightarrow>
               (cat_dim1 x new_features', DenseLayer cs' drop_rate, g'')))"
| "forward fw training (DenseBlock cs) g x =
     (case forward_children fw training cs g x of (r, cs', g') \<Rightarrow> (r, DenseBlock cs', g'))"
| "forward fw training (Transition cs) g x =
     (case forward_children fw training cs g x of (r, cs', g') \<Rightarrow> (r, Transition cs', g'))"
| "forward_children fw training [] g x = (Inr x, [], g)"
| "forward_children fw training ((name, m) # cs) g x =
     (case forward fw training m g x of
        (Inl e, m', g') \<Rightarrow> (Inl e, (name, m') # cs, g')
      | (Inr y, m', g') \<Rightarrow>
          (case forward_children fw training cs g' y of
             (r, cs', g'') \<Rightarrow> (r, (name, m') # cs', g'')))"

section \<open>Construction\<close>

text \<open>\<^verbatim>\<open>_DenseLayer.__init__(num_input_features, growth_rate, bn_size, drop_rate)\<close>.\<close>

definition DenseLayer_init ::
  "('a, 'g) framework \<Rightarrow> nat \<Rightarrow> nat \<Rightarrow> nat \<Rightarrow> real \<Rightarrow> 'g \<Rightarrow> 'a module \<times> 'g" where
  "DenseLayer_init fw num_input_features growth_rate bn_size drop_rate g0 =
     (let (norm1, g1) = torch_init fw (BatchNorm2d num_input_features) g0;
          cs = add_module [] ''norm.1'' norm1;
          cs = add_module cs ''swish.1'' Swish;
          (conv1, g2) = torch_init fw
             (Conv2d num_input_features (bn_size * growth_rate) 1 (1, 1) 0 False) g1;
          cs = add_module cs ''conv.1'' conv1;
          (norm2, g3) = torch_init fw (BatchNorm2d (bn_size * growth_rate)) g2;
          cs = add_module cs ''norm.2'' norm2;
          cs = add_module cs ''swish.2'' Swish;
          (conv2, g4) = torch_init fw
             (Conv2d (bn_size * growth_rate) growth_rate 3 (1, 1) 1 False) g3;
          cs = add_module cs ''conv.2'' conv2
      in (DenseLayer cs drop_rate, g4))"

text \<open>
  \<^verbatim>\<open>_DenseBlock.__init__(num_layers, num_input_features, bn_size, growth_rate, drop_rate)\<close>:
  the loop over \<^verbatim>\<open>range(num_layers)\<close>, then the container.
\<close>

fun DenseBlock_loop ::
  "('a, 'g) framework \<Rightarrow> nat \<Rightarrow> nat \<Rightarrow> nat \<Rightarrow> real \<Rightarrow> nat list
     \<Rightarrow> (string \<times> 'a module) list \<Rightarrow> 'g \<Rightarrow> (string \<times> 'a module) list \<times> 'g" where
  "DenseBlock_loop fw num_input_features bn_size growth_rate drop_rate [] cs g = (cs, g)"
| "DenseBlock_loop fw num_input_features bn_size growth_rate drop_rate (i # is) cs g =
     (let (layer, g') = DenseLayer_init fw (num_input_features + i * growth_rate)
                          growth_rate bn_size drop_rate g
      in DenseBlock_loop fw num_input_features bn_size growth_rate drop_rate is
           (add_module cs (''denselayer'' @ str_nat (i + 1)) layer) g')"

definition DenseBlock_init ::
  "('a, 'g) framework \<Rightarrow> nat \<Rightarrow> nat \<Rightarrow> nat \<Rightarrow> nat \<Rightarrow> real \<Rightarrow> 'g \<Rightarrow> 'a module \<times> 'g" where
  "DenseBlock_init fw num_layers num_input_features bn_size growth_rate drop_rate g =
     (let (cs, g') = DenseBlock_loop fw num_input_features bn_size growth_rate drop_rate
                       [0..<num_layers] [] g
      in (DenseBlock cs, g'))"

text \<open>\<^verbatim>\<open>_Transition.__init__(num_input_features, num_output_features)\<close>.\<close>

definition Transition_init ::
  "('a, 'g) framework \<Rightarrow> nat \<Rightarrow> nat \<Rightarrow> 'g \<Rightarrow> 'a module \<times> 'g" where
  "Transition_init fw num_input_features num_output_features g0 =
     (let (norm, g1) = torch_init fw (BatchNorm2d num_input_features) g0;
          cs = add_module [] ''norm'' norm;
          cs = add_module cs ''swish'' Swish;
          (conv, g2) = torch_init fw
             (Conv2d num_input_features num_output_features 1 (1, 1) 0 False) g1;
          cs = add_module cs ''conv'' conv;
          (pool, g3) = torch_init fw (AvgPool2d 3 (2, 2) 1) g2;
          cs = add_module cs ''pool'' pool
      in (Transition cs, g3))"


text \<open>
  \<^verbatim>\<open>DenseNet.__init__\<close>. The constants \<^verbatim>\<open>p.NUM_PIXELS\<close>, \<^verbatim>\<open>p.NUM_LABELS\<close> and \<^verbatim>\<open>p.EPS\<close>,
  the defaults of \<open>x_dim\<close>, \<open>y_dim\<close> and \<open>eps\<close>, are not part of the source file: the three
  are arguments here. The other defaults are \<open>growth_rate = 4\<close>,
  \<open>block_config = (6, 12, 24, 48, 16)\<close>, \<open>num_init_features = 64\<close>, \<open>bn_size = 4\<close>,
  \<open>drop_rate = 0\<close>.
\<close>

text \<open>The first convolution: the children of \<open>hidden\<close> at its creation.\<close>

definition stem ::
  "('a, 'g) framework \<Rightarrow> nat \<Rightarrow> 'g \<Rightarrow> (string \<times> 'a module) list \<times> 'g" where
  "stem fw num_init_features g0 =
     (let (conv, g1) = torch_init fw (Conv2d 2 num_init_features 3 (1, 1) 1 False) g0;
          (norm, g2) = torch_init fw (BatchNorm2d num_init_features) g1;
          (pool, g3) = torch_init fw (MaxPool2d 3 (2, 1) 1) g2
      in ([(''view.i'', View [- 1, 2, 129, 21]),
           (''conv.i'', conv),
           (''norm.i'', norm),
           (''swish.i'', Swish),
           (''pool.i'', pool)], g3))"

text \<open>
  The loop \<^verbatim>\<open>for i, num_layers in enumerate(block_config)\<close>, over the remaining pairs
  \<open>(i, num_layers)\<close>, with the children of \<open>hidden\<close>, \<open>num_features\<close> and the generator
  as its state; \<open>len\<close> is \<^verbatim>\<open>len(block_config)\<close>.
\<close>

fun blocks_loop ::
  "('a, 'g) framework \<Rightarrow> nat \<Rightarrow> nat \<Rightarrow> real \<Rightarrow> nat \<Rightarrow> (nat \<times> nat) list
     \<Rightarrow> (string \<times> 'a module) list \<Rightarrow> nat \<Rightarrow> 'g
     \<Rightarrow> (string \<times> 'a module) list \<times> nat \<times> 'g" where
  "blocks_loop fw bn_size growth_rate drop_rate len [] cs num_features g = (cs, num_features, g)"
| "blocks_loop fw bn_size growth_rate drop_rate len ((i, num_layers) # rest) cs num_features g =
     (let (block, g1) = DenseBlock_init fw num_layers num_features bn_size growth_rate drop_rate g;
          cs1 = add_module cs (''denseblock'' @ str_nat (i + 1)) block;
          num_features1 = num_features + num_layers * growth_rate
      in if int i \<noteq> int len - 1
         then (let (trans, g2) = Transition_init fw num_features1 (num_features1 div 2) g1;
                   cs2 = add_module cs1 (''transition'' @ str_nat (i + 1)) trans
               in blocks_loop fw bn_size growth_rate drop_rate len rest cs2 (num_features1 div 2) g2)
         else blocks_loop fw bn_size growth_rate drop_rate len rest cs1 num_features1 g1)"

text \<open>The final layers, added to the children \<open>cs\<close> of \<open>hidden\<close>.\<close>

definition head ::
  "('a, 'g) framework \<Rightarrow> nat \<Rightarrow> nat \<Rightarrow> (string \<times> 'a module) list \<Rightarrow> 'g
     \<Rightarrow> (string \<times> 'a module) list \<times> 'g" where
  "head fw num_features y_dim cs g0 =
     (let (norm, g1) = torch_init fw (BatchNorm2d num_features) g0;
          cs = add_module cs ''norm.f'' norm;
          cs = add_module cs ''swish.f'' Swish;
          (pool, g2) = torch_init fw (AvgPool2d 2 (1, 1) 0) g1;
          cs = add_module cs ''pool.f'' pool;
          cs = add_module cs ''view.f'' (View [- 1, 195 * 4]);
          (linear, g3) = torch_init fw (Linear (195 * 4) y_dim) g2;
          cs = add_module cs ''class.f'' linear
      in (cs, g3))"

text \<open>Lines 85 to 115 of the source: the module tree before the initialization pass.\<close>

definition assemble ::
  "('a, 'g) framework \<Rightarrow> nat \<Rightarrow> nat list \<Rightarrow> nat \<Rightarrow> nat \<Rightarrow> real \<Rightarrow> nat \<Rightarrow> 'g
     \<Rightarrow> 'a module \<times> 'g" where
  "assemble fw growth_rate block_config num_init_features bn_size drop_rate y_dim g0 =
     (let (cs0, g1) = stem fw num_init_features g0;
          (cs1, num_features, g2) =
             blocks_loop fw bn_size growth_rate drop_rate (length block_config)
               (enumerate 0 block_config) cs0 num_init_features g1;
          (cs2, g3) = head fw num_features y_dim cs1 g2
      in (Sequential cs2, g3))"

text \<open>
  The initialization pass, \<^verbatim>\<open>for m in self.modules()\<close>: every module of the tree, parents
  before children, children in order. \<open>m.weight\<close> is the first parameter of a layer and
  \<open>m.bias\<close> the second.
  \<^verbatim>\<open>
    if isinstance(m, nn.Conv2d):
        nn.init.kaiming_normal(m.weight.data)
    elif isinstance(m, nn.BatchNorm2d):
        m.weight.data.fill_(1)
        m.bias.data.zero_()
    elif isinstance(m, nn.Linear):
        m.bias.data.zero_()
  \<close>
\<close>

definition fill :: "'a tensor \<Rightarrow> 'a \<Rightarrow> 'a tensor" where
  "fill t v = Tensor (shape t) (map (\<lambda>_. v) (data t))"

definition kaiming_normal :: "('a, 'g) framework \<Rightarrow> 'g \<Rightarrow> 'a tensor \<Rightarrow> 'a tensor" where
  "kaiming_normal fw g t =
     Tensor (shape t) (map (fw_kaiming_normal fw g (shape t)) [0..<length (data t)])"

fun init_layer ::
  "('a::{zero,one}, 'g) framework \<Rightarrow> layer \<Rightarrow> 'a tensor list \<Rightarrow> 'g \<Rightarrow> 'a tensor list \<times> 'g" where
  "init_layer fw (Conv2d cin cout k st p b) (weight # ps) g =
     (kaiming_normal fw g weight # ps, fw_next fw g)"
| "init_layer fw (BatchNorm2d nf) (weight # bias # ps) g = (fill weight 1 # fill bias 0 # ps, g)"
| "init_layer fw (Linear fin fout) (weight # bias # ps) g = (weight # fill bias 0 # ps, g)"
| "init_layer fw l ps g = (ps, g)"

fun init_module :: "('a::{zero,one}, 'g) framework \<Rightarrow> 'a module \<Rightarrow> 'g \<Rightarrow> 'a module \<times> 'g"
and init_children ::
  "('a::{zero,one}, 'g) framework \<Rightarrow> (string \<times> 'a module) list \<Rightarrow> 'g
     \<Rightarrow> (string \<times> 'a module) list \<times> 'g"
where
  "init_module fw (View dims) g = (View dims, g)"
| "init_module fw Swish g = (Swish, g)"
| "init_module fw (Torch l ps bs) g = (case init_layer fw l ps g of (ps', g') \<Rightarrow> (Torch l ps' bs, g'))"
| "init_module fw (Sequential cs) g = (case init_children fw cs g of (cs', g') \<Rightarrow> (Sequential cs', g'))"
| "init_module fw (DenseLayer cs drop_rate) g =
     (case init_children fw cs g of (cs', g') \<Rightarrow> (DenseLayer cs' drop_rate, g'))"
| "init_module fw (DenseBlock cs) g = (case init_children fw cs g of (cs', g') \<Rightarrow> (DenseBlock cs', g'))"
| "init_module fw (Transition cs) g = (case init_children fw cs g of (cs', g') \<Rightarrow> (Transition cs', g'))"
| "init_children fw [] g = ([], g)"
| "init_children fw ((name, m) # cs) g =
     (case init_module fw m g of
        (m', g') \<Rightarrow> (case init_children fw cs g' of (cs', g'') \<Rightarrow> ((name, m') # cs', g'')))"

text \<open>The network object: the attributes that \<^verbatim>\<open>__init__\<close> sets.\<close>

record 'a DenseNet =
  x_dim :: nat
  y_dim :: nat
  eps :: real
  hidden :: "'a module"

definition DenseNet_init ::
  "('a::{zero,one}, 'g) framework \<Rightarrow> nat \<Rightarrow> nat \<Rightarrow> nat \<Rightarrow> nat list \<Rightarrow> nat \<Rightarrow> nat \<Rightarrow> real \<Rightarrow> real
     \<Rightarrow> 'g \<Rightarrow> 'a DenseNet \<times> 'g" where
  "DenseNet_init fw x_dim' y_dim' growth_rate block_config num_init_features bn_size drop_rate eps' g0 =
     (let (h, g1) = assemble fw growth_rate block_config num_init_features bn_size drop_rate y_dim' g0;
          (h', g2) = init_module fw h g1
      in (\<lparr>x_dim = x_dim', y_dim = y_dim', eps = eps', hidden = h'\<rparr>, g2))"

text \<open>
  \<^verbatim>\<open>DenseNet.forward(x, softmax)\<close>:
  \<^verbatim>\<open>
    out = self.hidden(x)
    if softmax:
        return ClippedSoftmax(self.eps, dim=1)(out)
    else:
        return out
  \<close>
\<close>

definition DenseNet_forward ::
  "('a::times, 'g) framework \<Rightarrow> bool \<Rightarrow> 'a DenseNet \<Rightarrow> 'g \<Rightarrow> 'a tensor \<Rightarrow> bool
     \<Rightarrow> (error + 'a tensor) \<times> 'a DenseNet \<times> 'g" where
  "DenseNet_forward fw training net g x softmax =
     (case forward fw training (hidden net) g x of
        (Inl e, h', g') \<Rightarrow> (Inl e, net\<lparr>hidden := h'\<rparr>, g')
      | (Inr out, h', g') \<Rightarrow>
          (if softmax then (fw_clipped_softmax fw (eps net) out, net\<lparr>hidden := h'\<rparr>, g')
           else (Inr out, net\<lparr>hidden := h'\<rparr>, g')))"

text \<open>\<^verbatim>\<open>parameters()\<close>: the parameter tensors of the tree, in the order of \<^verbatim>\<open>modules()\<close>.\<close>

fun parameters :: "'a module \<Rightarrow> 'a tensor list"
and parameters_children :: "(string \<times> 'a module) list \<Rightarrow> 'a tensor list" where
  "parameters (View dims) = []"
| "parameters Swish = []"
| "parameters (Torch l ps bs) = ps"
| "parameters (Sequential cs) = parameters_children cs"
| "parameters (DenseLayer cs drop_rate) = parameters_children cs"
| "parameters (DenseBlock cs) = parameters_children cs"
| "parameters (Transition cs) = parameters_children cs"
| "parameters_children [] = []"
| "parameters_children ((name, m) # cs) = parameters m @ parameters_children cs"


section \<open>Auxiliary notions for the statements\<close>

text \<open>Reading a decimal string back, to show that generated names are distinct.\<close>

definition digit_val :: "char \<Rightarrow> nat" where
  "digit_val c =
     (if c = CHR ''0'' then 0 else if c = CHR ''1'' then 1 else if c = CHR ''2'' then 2
      else if c = CHR ''3'' then 3 else if c = CHR ''4'' then 4 else if c = CHR ''5'' then 5
      else if c = CHR ''6'' then 6 else if c = CHR ''7'' then 7 else if c = CHR ''8'' then 8
      else 9)"

definition nat_str :: "string \<Rightarrow> nat" where
  "nat_str s = foldl (\<lambda>a c. 10 * a + digit_val c) 0 s"

text \<open>
  \<open>strip\<close> forgets the parameter and buffer values of a module tree and keeps its
  architecture: two trees with the same \<open>strip\<close> differ in their tensors only.
\<close>


fun strip :: "'a module \<Rightarrow> 'a module"
and strip_children :: "(string \<times> 'a module) list \<Rightarrow> (string \<times> 'a module) list" where
  "strip (View dims) = View dims"
| "strip Swish = Swish"
| "strip (Torch l ps bs) = Torch l [] []"
| "strip (Sequential cs) = Sequential (strip_children cs)"
| "strip (DenseLayer cs drop_rate) = DenseLayer (strip_children cs) drop_rate"
| "strip (DenseBlock cs) = DenseBlock (strip_children cs)"
| "strip (Transition cs) = Transition (strip_children cs)"
| "strip_children [] = []"
| "strip_children ((name, m) # cs) = (name, strip m) # strip_children cs"

text \<open>
  The shapes alone: \<open>shape_forward training m s\<close> is the shape of the result of the forward
  pass of \<open>m\<close> in the given mode on an input of shape \<open>s\<close>, or the error raised. It is shown
  below to agree with \<open>forward\<close>, whatever the parameters and the generator are.
\<close>

fun cat_shape :: "nat list \<Rightarrow> nat list \<Rightarrow> error + nat list" where
  "cat_shape (n # c # r) (n' # c' # r') =
     (if n = n' \<and> r = r' then Inr (n # (c + c') # r) else Inl RuntimeError)"
| "cat_shape s s' = Inl RuntimeError"

fun shape_forward :: "bool \<Rightarrow> 'a module \<Rightarrow> nat list \<Rightarrow> error + nat list"
and shape_children :: "bool \<Rightarrow> (string \<times> 'a module) list \<Rightarrow> nat list \<Rightarrow> error + nat list" where
  "shape_forward training (View dims) s = infer_size dims (prod_list s)"
| "shape_forward training Swish s = Inr s"
| "shape_forward training (Torch l ps bs) s = out_shape training l s"
| "shape_forward training (Sequential cs) s = shape_children training cs s"
| "shape_forward training (DenseLayer cs drop_rate) s =
     (case shape_children training cs s of
        Inl e \<Rightarrow> Inl e
      | Inr s' \<Rightarrow> if 1 < drop_rate then Inl ValueError else cat_shape s s')"
| "shape_forward training (DenseBlock cs) s = shape_children training cs s"
| "shape_forward training (Transition cs) s = shape_children training cs s"
| "shape_children training [] s = Inr s"
| "shape_children training ((name, m) # cs) s =
     (case shape_forward training m s of Inl e \<Rightarrow> Inl e | Inr s' \<Rightarrow> shape_children training cs s')"

definition result_shape :: "error + 'a tensor \<Rightarrow> error + nat list" where
  "result_shape r = (case r of Inl e \<Rightarrow> Inl e | Inr y \<Rightarrow> Inr (shape y))"

text \<open>
  A small framework and generator for the concrete instances: integers as elements, a
  counter as generator state.
\<close>

definition fw0 :: "(int, nat) framework" where
  "fw0 = \<lparr>fw_sigmoid = (\<lambda>v. v + 1),
          fw_layer = (\<lambda>l training ps bs x i. int i + 100),
          fw_stats = (\<lambda>l bs x j i. 7),
          fw_dropout = (\<lambda>p g x i. int g),
          fw_reset = (\<lambda>g l j i. int g),
          fw_buffer = (\<lambda>l j i. 0),
          fw_kaiming_normal = (\<lambda>g s i. int g + 50),
          fw_next = Suc,
          fw_clipped_softmax = (\<lambda>e x. Inr x)\<rparr>"

text \<open>
  The class of a module, and the names that the loop over the block configuration
  generates (\<^verbatim>\<open>denseblock1\<close>, \<^verbatim>\<open>transition1\<close>, ...).
\<close>

fun class_name :: "'a module \<Rightarrow> string" where
  "class_name (View dims) = ''View''"
| "class_name Swish = ''Swish''"
| "class_name (Torch (Conv2d cin cout k st p b) ps bs) = ''Conv2d''"
| "class_name (Torch (BatchNorm2d nf) ps bs) = ''BatchNorm2d''"
| "class_name (Torch (MaxPool2d k st p) ps bs) = ''MaxPool2d''"
| "class_name (Torch (AvgPool2d k st p) ps bs) = ''AvgPool2d''"
| "class_name (Torch (Linear fin fout) ps bs) = ''Linear''"
| "class_name (Sequential cs) = ''Sequential''"
| "class_name (DenseLayer cs drop_rate) = ''_DenseLayer''"
| "class_name (DenseBlock cs) = ''_DenseBlock''"
| "class_name (Transition cs) = ''_Transition''"

definition generated_name :: "string \<Rightarrow> bool" where
  "generated_name name = (take 10 name = ''denseblock'' \<or> take 10 name = ''transition'')"

subsection \<open>Observations on the parameters of a module tree\<close>

text \<open>
  \<open>modules\<close> lists a module and all its descendants in pre-order, as \<open>nn.Module.modules()\<close>
  does; the initialization loop of \<open>DenseNet.__init__\<close> walks this list.  \<open>params_ok\<close> says that
  a framework layer holds the parameter tensors its constructor creates (right shapes, right
  lengths).  \<open>initialized\<close> is the state the loop leaves a layer in: a normalization layer has
  weight all ones and bias all zeros, a linear layer has bias all zeros.  \<open>linear_weights\<close>
  collects the weights of the linear layers, \<open>fixed_params\<close> the normalization weights and biases
  and the linear biases, and \<open>forget_conv\<close> erases the convolution weights of a tree.
  \<open>ones_and_zeros\<close> is the list of constant tensors determined by the layer sizes alone.
\<close>

fun modules :: "'a module \<Rightarrow> 'a module list"
and modules_children :: "(string \<times> 'a module) list \<Rightarrow> 'a module list" where
  "modules (View dims) = [View dims]"
| "modules Swish = [Swish]"
| "modules (Torch l ps bs) = [Torch l ps bs]"
| "modules (Sequential cs) = Sequential cs # modules_children cs"
| "modules (DenseLayer cs drop_rate) = DenseLayer cs drop_rate # modules_children cs"
| "modules (DenseBlock cs) = DenseBlock cs # modules_children cs"
| "modules (Transition cs) = Transition cs # modules_children cs"
| "modules_children [] = []"
| "modules_children ((name, m) # cs) = modules m @ modules_children cs"

fun params_ok :: "'a module \<Rightarrow> bool" where
  "params_ok (Torch l ps bs) =
     (map shape ps = param_shapes l \<and> list_all (\<lambda>t. length (data t) = prod_list (shape t)) ps)"
| "params_ok m = True"

fun initialized :: "'a::{zero,one} module \<Rightarrow> bool" where
  "initialized (Torch (BatchNorm2d nf) ps bs) =
     (ps = [Tensor [nf] (replicate nf 1), Tensor [nf] (replicate nf 0)])"
| "initialized (Torch (Linear fin fout) ps bs) =
     (length ps = 2 \<and> ps ! 1 = Tensor [fout] (replicate fout 0))"
| "initialized m = True"

fun linear_weights :: "'a module \<Rightarrow> 'a tensor list"
and linear_weights_children :: "(string \<times> 'a module) list \<Rightarrow> 'a tensor list" where
  "linear_weights (Torch (Linear fin fout) ps bs) = take 1 ps"
| "linear_weights (Torch l ps bs) = []"
| "linear_weights (View dims) = []"
| "linear_weights Swish = []"
| "linear_weights (Sequential cs) = linear_weights_children cs"
| "linear_weights (DenseLayer cs drop_rate) = linear_weights_children cs"
| "linear_weights (DenseBlock cs) = linear_weights_children cs"
| "linear_weights (Transition cs) = linear_weights_children cs"
| "linear_weights_children [] = []"
| "linear_weights_children ((name, m) # cs) = linear_weights m @ linear_weights_children cs"

fun forget_conv :: "'a module \<Rightarrow> 'a module"
and forget_conv_children :: "(string \<times> 'a module) list \<Rightarrow> (string \<times> 'a module) list" where
  "forget_conv (Torch (Conv2d cin cout k st p b) ps bs) = Torch (Conv2d cin cout k st p b) (drop 1 ps) bs"
| "forget_conv (Torch l ps bs) = Torch l ps bs"
| "forget_conv (View dims) = View dims"
| "forget_conv Swish = Swish"
| "forget_conv (Sequential cs) = Sequential (forget_conv_children cs)"
| "forget_conv (DenseLayer cs drop_rate) = DenseLayer (forget_conv_children cs) drop_rate"
| "forget_conv (DenseBlock cs) = DenseBlock (forget_conv_children cs)"
| "forget_conv (Transition cs) = Transition (forget_conv_children cs)"
| "forget_conv_children [] = []"
| "forget_conv_children ((name, m) # cs) = (name, forget_conv m) # forget_conv_children cs"

fun fixed_params :: "'a module \<Rightarrow> 'a tensor list"
and fixed_params_children :: "(string \<times> 'a module) list \<Rightarrow> 'a tensor list" where
  "fixed_params (Torch (BatchNorm2d nf) ps bs) = ps"
| "fixed_params (Torch (Linear fin fout) ps bs) = drop 1 ps"
| "fixed_params (Torch l ps bs) = []"
| "fixed_params (View dims) = []"
| "fixed_params Swish = []"
| "fixed_params (Sequential cs) = fixed_params_children cs"
| "fixed_params (DenseLayer cs drop_rate) = fixed_params_children cs"
| "fixed_params (DenseBlock cs) = fixed_params_children cs"
| "fixed_params (Transition cs) = fixed_params_children cs"
| "fixed_params_children [] = []"
| "fixed_params_children ((name, m) # cs) = fixed_params m @ fixed_params_children cs"

fun ones_and_zeros :: "'a module \<Rightarrow> ('b::{zero,one}) tensor list"
and ones_and_zeros_children :: "(string \<times> 'a module) list \<Rightarrow> ('b::{zero,one}) tensor list" where
  "ones_and_zeros (Torch (BatchNorm2d nf) ps bs) =
     [Tensor [nf] (replicate nf 1), Tensor [nf] (replicate nf 0)]"
| "ones_and_zeros (Torch (Linear fin fout) ps bs) = [Tensor [fout] (replicate fout 0)]"
| "ones_and_zeros (Torch l ps bs) = []"
| "ones_and_zeros (View dims) = []"
| "ones_and_zeros Swish = []"
| "ones_and_zeros (Sequential cs) = ones_and_zeros_children cs"
| "ones_and_zeros (DenseLayer cs drop_rate) = ones_and_zeros_children cs"
| "ones_and_zeros (DenseBlock cs) = ones_and_zeros_children cs"
| "ones_and_zeros (Transition cs) = ones_and_zeros_children cs"
| "ones_and_zeros_children [] = []"
| "ones_and_zeros_children ((name, m) # cs) = ones_and_zeros m @ ones_and_zeros_children cs"


text \<open>
  For the convolutions: \<open>conv_weights\<close> collects the weights of the convolutions of a tree
  in the order of \<^verbatim>\<open>modules()\<close>, \<open>conv_shapes\<close> the shapes \<open>(out, in, k, k)\<close> of these
  weights. \<open>kaiming_fills fw g shapes\<close> is what \<^verbatim>\<open>nn.init.kaiming_normal\<close> draws for tensors
  of these shapes one after the other, starting from the generator state \<open>g\<close>.
\<close>

fun conv_weights :: "'a module \<Rightarrow> 'a tensor list"
and conv_weights_children :: "(string \<times> 'a module) list \<Rightarrow> 'a tensor list" where
  "conv_weights (Torch (Conv2d cin cout k st p b) ps bs) = take 1 ps"
| "conv_weights (Torch l ps bs) = []"
| "conv_weights (View dims) = []"
| "conv_weights Swish = []"
| "conv_weights (Sequential cs) = conv_weights_children cs"
| "conv_weights (DenseLayer cs drop_rate) = conv_weights_children cs"
| "conv_weights (DenseBlock cs) = conv_weights_children cs"
| "conv_weights (Transition cs) = conv_weights_children cs"
| "conv_weights_children [] = []"
| "conv_weights_children ((name, m) # cs) = conv_weights m @ conv_weights_children cs"

fun conv_shapes :: "'a module \<Rightarrow> nat list list"
and conv_shapes_children :: "(string \<times> 'a module) list \<Rightarrow> nat list list" where
  "conv_shapes (Torch (Conv2d cin cout k st p b) ps bs) = [[cout, cin, k, k]]"
| "conv_shapes (Torch l ps bs) = []"
| "conv_shapes (View dims) = []"
| "conv_shapes Swish = []"
| "conv_shapes (Sequential cs) = conv_shapes_children cs"
| "conv_shapes (DenseLayer cs drop_rate) = conv_shapes_children cs"
| "conv_shapes (DenseBlock cs) = conv_shapes_children cs"
| "conv_shapes (Transition cs) = conv_shapes_children cs"
| "conv_shapes_children [] = []"
| "conv_shapes_children ((name, m) # cs) = conv_shapes m @ conv_shapes_children cs"

fun kaiming_fills :: "('a, 'g) framework \<Rightarrow> 'g \<Rightarrow> nat list list \<Rightarrow> 'a tensor list" where
  "kaiming_fills fw g [] = []"
| "kaiming_fills fw g (s # ss) =
     Tensor s (map (fw_kaiming_normal fw g s) [0..<prod_list s]) # kaiming_fills fw (fw_next fw g) ss"

section \<open>Generated names\<close>

lemma digit_val_digit: "d < 10 \<Longrightarrow> digit_val (digit d) = d"
proof -
  assume "d < 10"
  then consider "d = 0" | "d = 1" | "d = 2" | "d = 3" | "d = 4" | "d = 5" | "d = 6" | "d = 7"
    | "d = 8" | "d = 9" by atomize_elim arith
  then show ?thesis
    by cases (simp_all add: digit_def digit_val_def)
qed

lemma nat_str_str_nat: "nat_str (str_nat n) = n"
proof (induction n rule: str_nat.induct)
  case (1 n)
  show ?case
  proof (cases "n < 10")
    case True
    then show ?thesis by (simp add: str_nat.simps [of n] nat_str_def digit_val_digit)
  next
    case False
    with 1 have "nat_str (str_nat (n div 10)) = n div 10" by simp
    with False show ?thesis
      by (simp add: str_nat.simps [of n] nat_str_def digit_val_digit)
  qed
qed

lemma str_nat_inj: "str_nat m = str_nat n \<Longrightarrow> m = n"
  by (metis nat_str_str_nat)

section \<open>Blocks of elements\<close>

lemma concat_chunks: "concat (map (chunk k xs) [0..<n]) = take (n * k) xs"
proof (induction n)
  case 0
  show ?case by simp
next
  case (Suc n)
  have "take (n * k + k) xs = take (n * k) xs @ take k (drop (n * k) xs)"
    by (rule take_add)
  with Suc show ?case by (simp add: chunk_def add.commute)
qed

lemma length_chunk: "(Suc i) * k \<le> length xs \<Longrightarrow> length (chunk k xs i) = k"
  by (simp add: chunk_def)

lemma chunk_concat:
  "\<forall>b \<in> set bs. length b = k \<Longrightarrow> i < length bs \<Longrightarrow> chunk k (concat bs) i = bs ! i"
proof (induction bs arbitrary: i)
  case Nil
  then show ?case by simp
next
  case (Cons b bs)
  show ?case
  proof (cases i)
    case 0
    with Cons.prems show ?thesis by (simp add: chunk_def)
  next
    case (Suc j)
    with Cons.prems have "chunk k (concat bs) j = bs ! j"
      by (intro Cons.IH) auto
    with Suc Cons.prems show ?thesis by (simp add: chunk_def)
  qed
qed

section \<open>Shapes of the forward pass\<close>

lemma result_shape_simps [simp]:
  "result_shape (Inl e) = Inl e" "result_shape (Inr y) = Inr (shape y)"
  by (simp_all add: result_shape_def)

lemma shape_cat_dim1: "result_shape (cat_dim1 x y) = cat_shape (shape x) (shape y)"
  by (induction x y rule: cat_dim1.induct) auto

lemma shape_dropout:
  "result_shape (fst (dropout fw x p training g)) =
     (if p < 0 \<or> 1 < p then Inl ValueError else Inr (shape x))"
  by (simp add: dropout_def)

lemma shape_torch_forward:
  "result_shape (fst (torch_forward fw training l ps bs x)) = out_shape training l (shape x)"
  by (simp add: torch_forward_def new_tensor_def split: sum.splits)

lemma batch_norm_single_value:
  "torch_forward fw True (BatchNorm2d nf) ps bs (Tensor [1, c, 1, 1] xs) = (Inl ValueError, bs)"
  by (simp add: torch_forward_def)

lemma shape_View_forward:
  "result_shape (View_forward dims x) = infer_size dims (prod_list (shape x))"
  by (cases "infer_size dims (prod_list (shape x))") (simp_all add: View_forward_def view_def numel_def)

lemma forward_shape:
  "result_shape (fst (forward fw training m g x)) = shape_forward training m (shape x)"
  "result_shape (fst (forward_children fw training cs g x)) = shape_children training cs (shape x)"
proof (induction fw training m g x and fw training cs g x rule: forward_forward_children.induct)
  case (1 fw training dims g x)
  show ?case by (simp add: shape_View_forward)
next
  case (2 fw training g x)
  show ?case by (simp add: Swish_forward_def)
next
  case (3 fw training l ps bs g x)
  show ?case using shape_torch_forward [of fw training l ps bs x]
    by (cases "torch_forward fw training l ps bs x") simp
next
  case (4 fw training cs g x)
  then show ?case by (cases "forward_children fw training cs g x") simp
next
  case (5 fw training cs drop_rate g x)
  obtain r cs' g' where fc: "forward_children fw training cs g x = (r, cs', g')"
    by (cases "forward_children fw training cs g x") auto
  with 5 have sc: "shape_children training cs (shape x) = result_shape r" by simp
  show ?case
  proof (cases r)
    case (Inl e)
    with fc sc show ?thesis by simp
  next
    case (Inr nf)
    show ?thesis
    proof (cases "0 < drop_rate")
      case True
      obtain r' g'' where d: "dropout fw nf drop_rate training g' = (r', g'')"
        by (cases "dropout fw nf drop_rate training g'") auto
      with shape_dropout [of fw nf drop_rate training g'] True
      have "result_shape r' = (if 1 < drop_rate then Inl ValueError else Inr (shape nf))"
        by simp
      with fc sc Inr True d show ?thesis
        by (cases r') (auto simp: shape_cat_dim1 split: if_splits)
    next
      case False
      with fc sc Inr show ?thesis by (simp add: shape_cat_dim1)
    qed
  qed
next
  case (6 fw training cs g x)
  then show ?case by (cases "forward_children fw training cs g x") simp
next
  case (7 fw training cs g x)
  then show ?case by (cases "forward_children fw training cs g x") simp
next
  case (8 fw training g x)
  show ?case by simp
next
  case (9 fw training name m cs g x)
  obtain r m' g' where f: "forward fw training m g x = (r, m', g')"
    by (cases "forward fw training m g x") auto
  with 9 have sf: "shape_forward training m (shape x) = result_shape r" by simp
  show ?case
  proof (cases r)
    case (Inl e)
    with f sf show ?thesis by simp
  next
    case (Inr y)
    with 9 f have "result_shape (fst (forward_children fw training cs g' y)) = shape_children training cs (shape y)"
      by simp
    with f sf Inr show ?thesis
      by (cases "forward_children fw training cs g' y") simp
  qed
qed

lemma shape_strip:
  fixes m :: "'a module" and cs :: "(string \<times> 'a module) list"
  shows "shape_forward training (strip m) s = shape_forward training m s"
    and "shape_children training (strip_children cs) s' = shape_children training cs s'"
  by (induction m and cs arbitrary: s and s' rule: strip_strip_children.induct)
     (simp_all split: sum.splits)

lemma forward_parameters:
  "parameters (fst (snd (forward fw training m g x))) = parameters m"
  "parameters_children (fst (snd (forward_children fw training cs g x))) = parameters_children cs"
  by (induction fw training m g x and fw training cs g x rule: forward_forward_children.induct)
     (auto split: prod.splits sum.splits if_splits)

lemma fst_case_triple:
  "fst (case p of (r, a, b) \<Rightarrow> (r, f a, b)) = fst p"
  by (cases p) simp

lemma forward_eval_state:
  "\<not> training \<Longrightarrow> snd (forward fw training m g x) = (m, g)"
  "\<not> training \<Longrightarrow> snd (forward_children fw training cs g x) = (cs, g)"
proof (induction fw training m g x and fw training cs g x rule: forward_forward_children.induct)
  case (3 fw training l ps bs g x)
  then show ?case by (simp add: torch_forward_def split: sum.splits)
next
  case (5 fw training cs drop_rate g x)
  then show ?case
    by (cases "forward_children fw training cs g x")
       (auto simp: dropout_def split: sum.splits if_splits)
next
  case (9 fw training name m cs g x)
  then show ?case
    by (cases "forward fw training m g x") (auto split: sum.splits prod.splits)
qed (auto split: prod.splits)

lemma dropout_eval:
  "dropout fw x p False g = (if p < 0 \<or> 1 < p then Inl ValueError else Inr x, g)"
  by (simp add: dropout_def)

lemma forward_eval_result:
  "\<not> training \<Longrightarrow> \<forall>g0. fst (forward fw training m g x) = fst (forward fw training m g0 x)"
  "\<not> training \<Longrightarrow> \<forall>g0. fst (forward_children fw training cs g x) = fst (forward_children fw training cs g0 x)"
proof (induction fw training m g x and fw training cs g x rule: forward_forward_children.induct)
  case (3 fw training l ps bs g x)
  then show ?case by (simp split: prod.splits)
next
  case (5 fw training cs drop_rate g x)
  from 5(2) have tr: "training = False" by simp
  show ?case
  proof
    fix g0
    from 5 have eq: "fst (forward_children fw False cs g x) = fst (forward_children fw False cs g0 x)"
      by (simp add: tr)
    from forward_eval_state(2) [of False fw cs]
    have st: "snd (forward_children fw False cs g x) = (cs, g)"
      "snd (forward_children fw False cs g0 x) = (cs, g0)" by simp_all
    obtain r where r: "forward_children fw False cs g x = (r, cs, g)"
      using st(1) by (cases "forward_children fw False cs g x") simp
    with eq st(2) have r0: "forward_children fw False cs g0 x = (r, cs, g0)"
      by (cases "forward_children fw False cs g0 x") simp
    show "fst (forward fw training (DenseLayer cs drop_rate) g x)
        = fst (forward fw training (DenseLayer cs drop_rate) g0 x)"
      unfolding tr by (cases r) (simp_all add: r r0 dropout_eval)
  qed
next
  case (9 fw training name m cs g x)
  from 9(3) have tr: "training = False" by simp
  show ?case
  proof
    fix g0
    from 9 have eq: "fst (forward fw False m g x) = fst (forward fw False m g0 x)"
      by (simp add: tr)
    from forward_eval_state(1) [of False fw m]
    have st: "snd (forward fw False m g x) = (m, g)"
      "snd (forward fw False m g0 x) = (m, g0)" by simp_all
    obtain r where r: "forward fw False m g x = (r, m, g)"
      using st(1) by (cases "forward fw False m g x") simp
    with eq st(2) have r0: "forward fw False m g0 x = (r, m, g0)"
      by (cases "forward fw False m g0 x") simp
    show "fst (forward_children fw training ((name, m) # cs) g x)
        = fst (forward_children fw training ((name, m) # cs) g0 x)"
    proof (cases r)
      case (Inl e)
      with r r0 show ?thesis by (simp add: tr)
    next
      case (Inr y)
      from r tr have r': "forward fw training m g x = (r, m, g)" by simp
      from 9(2) [OF r' [symmetric] Inr refl 9(3)] tr
      have "fst (forward_children fw False cs g y) = fst (forward_children fw False cs g0 y)"
        by simp
      with r r0 Inr show ?thesis
        by (cases "forward_children fw False cs g y"; cases "forward_children fw False cs g0 y")
           (simp add: tr)
    qed
  qed
qed (simp_all add: fst_case_triple)

lemma DenseNet_forward_eval:"DenseNet_forward fw False net g x softmax = (fst (DenseNet_forward fw False net g0 x softmax), net, g)"
proof -
  from forward_eval_state(1) [of False fw "hidden net"]
  have st: "snd (forward fw False (hidden net) g x) = (hidden net, g)"
    "snd (forward fw False (hidden net) g0 x) = (hidden net, g0)" by simp_all
  from forward_eval_result(1) [of False fw "hidden net" g x]
  have eq: "fst (forward fw False (hidden net) g x) = fst (forward fw False (hidden net) g0 x)"
    by simp
  obtain r where r: "forward fw False (hidden net) g x = (r, hidden net, g)"
    using st(1) by (cases "forward fw False (hidden net) g x") simp
  with eq st(2) have r0: "forward fw False (hidden net) g0 x = (r, hidden net, g0)"
    by (cases "forward fw False (hidden net) g0 x") simp
  show ?thesis
    by (cases r) (simp_all add: DenseNet_forward_def r r0)
qed

section \<open>Well-formed results\<close>

lemma prod_list_wildcard:
  "\<forall>d \<in> set dims. - 1 \<le> d \<Longrightarrow>
   prod_list (map (\<lambda>d. if d = - 1 then q else nat d) dims)
     = q ^ length (filter (\<lambda>d. d = - 1) dims) * nat (prod_list (filter (\<lambda>d. d \<noteq> - 1) dims))
   \<and> 0 \<le> prod_list (filter (\<lambda>d. d \<noteq> - 1) dims)"
proof (induction dims)
  case Nil
  show ?case by simp
next
  case (Cons d dims)
  then have IH: "prod_list (map (\<lambda>d. if d = - 1 then q else nat d) dims)
     = q ^ length (filter (\<lambda>d. d = - 1) dims) * nat (prod_list (filter (\<lambda>d. d \<noteq> - 1) dims))"
    and nn: "0 \<le> prod_list (filter (\<lambda>d. d \<noteq> - 1) dims)" by simp_all
  show ?case
  proof (cases "d = - 1")
    case True
    with IH nn show ?thesis by simp
  next
    case False
    with Cons.prems have "0 \<le> d" by simp
    with False IH nn show ?thesis by (simp add: nat_mult_distrib)
  qed
qed

lemma infer_size_prod: "infer_size dims n = Inr s \<Longrightarrow> prod_list s = n"
proof -
  assume a: "infer_size dims n = Inr s"
  let ?known = "prod_list (filter (\<lambda>d. d \<noteq> - 1) dims)"
  let ?wild = "length (filter (\<lambda>d. d = - 1) dims)"
  from a have ge: "\<forall>d \<in> set dims. - 1 \<le> d"
    by (auto simp: infer_size_def Let_def list_ex_iff split: if_splits)
  from a consider "?wild = 0" | "?wild = 1"
    by (auto simp: infer_size_def Let_def split: if_splits)
  then show ?thesis
  proof cases
    case 1
    then have nw: "\<forall>d \<in> set dims. d \<noteq> - 1" by (auto simp: filter_empty_conv)
    then have "prod_list (map nat dims) = prod_list (map (\<lambda>d. if d = - 1 then 0 else nat d) dims)"
      by (intro arg_cong [where f = prod_list] map_cong) simp_all
    also from prod_list_wildcard [OF ge, of 0] 1 have "\<dots> = nat ?known" by simp
    finally have "prod_list (map nat dims) = nat ?known" .
    moreover from a 1 have "?known = int n" "s = map nat dims"
      by (auto simp: infer_size_def Let_def split: if_splits)
    ultimately show ?thesis by simp
  next
    case 2
    with a have k: "0 < ?known" "int n mod ?known = 0"
      and s: "s = map (\<lambda>d. if d = - 1 then n div nat ?known else nat d) dims"
      by (auto simp: infer_size_def Let_def split: if_splits)
    from prod_list_wildcard [OF ge, of "n div nat ?known"] 2 s
    have "prod_list s = n div nat ?known * nat ?known" by simp
    moreover from k have "nat ?known dvd n"
      by (metis dvd_eq_mod_eq_0 int_dvd_int_iff nat_0_le less_imp_le)
    ultimately show ?thesis by simp
  qed
qed

lemma length_concat_blocks:
  "\<forall>i < n. length (f i) = k \<Longrightarrow> length (concat (map f [0..<n])) = n * k"
  by (induction n) simp_all

lemma length_chunk_full:
  "length xs = n * k \<Longrightarrow> i < n \<Longrightarrow> length (chunk k xs i) = k"
proof -
  assume a: "length xs = n * k" "i < n"
  then have "Suc i \<le> n" by simp
  then have "Suc i * k \<le> n * k" by (rule mult_le_mono1)
  with a show ?thesis by (simp add: length_chunk)
qed

lemma cat_dim1_data_ok:
  assumes "length (data x) = prod_list (shape x)" and "length (data y) = prod_list (shape y)"
    and "cat_dim1 x y = Inr z"
  shows "length (data z) = prod_list (shape z)"
proof -
  from assms(3) obtain n c r xs c' ys where
    x: "x = Tensor (n # c # r) xs" and y: "y = Tensor (n # c' # r) ys"
    by (cases "(x, y)" rule: cat_dim1.cases) (auto split: if_splits)
  let ?p = "prod_list r"
  from assms(1,2) x y have lx: "length xs = n * (c * ?p)" and ly: "length ys = n * (c' * ?p)"
    by simp_all
  have "length (concat (map (\<lambda>i. chunk (c * ?p) xs i @ chunk (c' * ?p) ys i) [0..<n]))
      = n * (c * ?p + c' * ?p)"
    by (rule length_concat_blocks) (simp add: length_chunk_full [OF lx] length_chunk_full [OF ly])
  with assms(3) x y show ?thesis by (auto simp: add_mult_distrib)
qed

lemma forward_data_ok:
  "length (data x) = prod_list (shape x) \<Longrightarrow> fst (forward fw training m g x) = Inr y
     \<Longrightarrow> length (data y) = prod_list (shape y)"
  "length (data x) = prod_list (shape x) \<Longrightarrow> fst (forward_children fw training cs g x) = Inr y
     \<Longrightarrow> length (data y) = prod_list (shape y)"
proof (induction fw training m g x and fw training cs g x arbitrary: y and y
    rule: forward_forward_children.induct)
  case (1 fw training dims g x)
  then show ?case
    by (auto simp: View_forward_def view_def numel_def split: sum.splits dest: infer_size_prod)
next
  case (2 fw training g x)
  then show ?case by (auto simp: Swish_forward_def)
next
  case (3 fw training l ps bs g x)
  then show ?case
    by (auto simp: torch_forward_def new_tensor_def split: sum.splits)
next
  case (5 fw training cs drop_rate g x)
  obtain r cs' g' where fc: "forward_children fw training cs g x = (r, cs', g')"
    by (cases "forward_children fw training cs g x") auto
  with 5(3) obtain nf where r: "r = Inr nf" by (cases r) auto
  with 5(1) [of nf] 5(2) fc have nf: "length (data nf) = prod_list (shape nf)" by simp
  obtain r' g'' where d: "(if 0 < drop_rate then dropout fw nf drop_rate training g'
                 else (Inr nf, g')) = (r', g'')"
    by (cases "if 0 < drop_rate then dropout fw nf drop_rate training g' else (Inr nf, g')") auto
  with 5(3) fc r obtain nf' where r': "r' = Inr nf'" by (cases r') auto
  from d r' nf have nf': "length (data nf') = prod_list (shape nf')"
    by (auto simp: dropout_def split: if_splits)
  from 5(3) fc r d r' have "cat_dim1 x nf' = Inr y" by simp
  with 5(2) nf' show ?case by (rule cat_dim1_data_ok)
next
  case (9 fw training name m cs g x)
  obtain r m' g' where f: "forward fw training m g x = (r, m', g')"
    by (cases "forward fw training m g x") auto
  with 9(4) obtain z where r: "r = Inr z" by (cases r) auto
  with 9(1) [of z] 9(3) f have z: "length (data z) = prod_list (shape z)" by simp
  from 9(4) f r have "fst (forward_children fw training cs g' z) = Inr y"
    by (cases "forward_children fw training cs g' z") simp
  with 9(2) [OF f [symmetric] r refl z] show ?case by simp
qed (simp_all add: fst_case_triple)

lemma narrow_cat_left:
  assumes "length xs = n * (c * p)" and "length ys = n * (c' * p)" and p: "p = prod_list r"
  shows "narrow_dim1 (Tensor (n # (c + c') # r) 
           (concat (map (\<lambda>i. chunk (c * p) xs i @ chunk (c' * p) ys i) [0..<n]))) 0 c
         = Inr (Tensor (n # c # r) xs)"
proof -
  let ?f = "\<lambda>i. chunk (c * p) xs i @ chunk (c' * p) ys i"
  note len = length_chunk_full [OF assms(1)] length_chunk_full [OF assms(2)]
  have ch: "chunk ((c + c') * p) (concat (map ?f [0..<n])) i = ?f i" if "i < n" for i
  proof -
    have "chunk ((c + c') * p) (concat (map ?f [0..<n])) i = map ?f [0..<n] ! i"
      using \<open>i < n\<close> len by (intro chunk_concat) (auto simp: add_mult_distrib)
    with \<open>i < n\<close> show ?thesis by simp
  qed
  have "concat (map (\<lambda>i. take (c * p) (drop (0 * p) (chunk ((c + c') * p) (concat (map ?f [0..<n])) i))) [0..<n])
        = concat (map (chunk (c * p) xs) [0..<n])"
    by (rule arg_cong [where f = concat], rule map_cong) (simp_all add: ch len)
  also have "\<dots> = xs" using assms by (simp add: concat_chunks)
  finally show ?thesis using p by simp
qed

lemma narrow_cat_dim1:
  assumes "length (data x) = prod_list (shape x)" and "length (data y) = prod_list (shape y)"
    and "cat_dim1 x y = Inr z"
  shows "narrow_dim1 z 0 (shape x ! 1) = Inr x"
proof -
  from assms(3) obtain n c r xs c' ys where
    x: "x = Tensor (n # c # r) xs" and y: "y = Tensor (n # c' # r) ys"
    by (cases "(x, y)" rule: cat_dim1.cases) (auto split: if_splits)
  from assms(1,2) x y have "length xs = n * (c * prod_list r)" "length ys = n * (c' * prod_list r)"
    by simp_all
  from narrow_cat_left [OF this refl] assms(3) x y show ?thesis by auto
qed

section \<open>The dense layer\<close>

lemma strip_DenseLayer_init:
  "strip (fst (DenseLayer_init fw c gr bn dr g)) =
     DenseLayer
       [(''norm.1'', Torch (BatchNorm2d c) [] []),
        (''swish.1'', Swish),
        (''conv.1'', Torch (Conv2d c (bn * gr) 1 (1, 1) 0 False) [] []),
        (''norm.2'', Torch (BatchNorm2d (bn * gr)) [] []),
        (''swish.2'', Swish),
        (''conv.2'', Torch (Conv2d (bn * gr) gr 3 (1, 1) 1 False) [] [])] dr"
  by (simp add: DenseLayer_init_def torch_init_def Let_def split_beta)

lemma shape_children_DenseLayer:
  assumes "0 < h" "0 < w" "training \<longrightarrow> n * h * w \<noteq> 1"
  shows "shape_children training
       [(''norm.1'', Torch (BatchNorm2d c) [] []),
        (''swish.1'', Swish),
        (''conv.1'', Torch (Conv2d c (bn * gr) 1 (1, 1) 0 False) [] []),
        (''norm.2'', Torch (BatchNorm2d (bn * gr)) [] []),
        (''swish.2'', Swish),
        (''conv.2'', Torch (Conv2d (bn * gr) gr 3 (1, 1) 1 False) [] [])] [n, c, h, w]
     = Inr [n, gr, h, w]"
  using assms by (simp add: window_def)

lemma strip_DenseLayerE:
  assumes "strip m = DenseLayer cs p"
  obtains cs' where "m = DenseLayer cs' p" "strip_children cs' = cs"
  using assms by (cases m) simp_all

section \<open>The dense block\<close>

lemma add_module_fresh: "name \<notin> fst ` set cs \<Longrightarrow> add_module cs name m = cs @ [(name, m)]"
  by (induction cs) auto

lemma strip_children_append:
  "strip_children (cs @ ds) = strip_children cs @ strip_children ds"
  by (induction cs) auto

lemma shape_children_append:
  "shape_children training (cs @ ds) s =
     (case shape_children training cs s of Inl e \<Rightarrow> Inl e | Inr s' \<Rightarrow> shape_children training ds s')"
  by (induction cs arbitrary: s) (auto split: sum.splits)

lemma denselayer_name_inj:
  "''denselayer'' @ str_nat (i + 1) = ''denselayer'' @ str_nat (j + 1) \<Longrightarrow> i = j"
  using str_nat_inj [of "i + 1" "j + 1"] by simp

lemma DenseBlock_loop_children:
  assumes "distinct is" and "\<forall>i \<in> set is. ''denselayer'' @ str_nat (i + 1) \<notin> fst ` set cs"
  shows "strip_children (fst (DenseBlock_loop fw nif bn gr dr is cs g)) =
     strip_children cs @
     map (\<lambda>i. (''denselayer'' @ str_nat (i + 1),
                strip (fst (DenseLayer_init fw' (nif + i * gr) gr bn dr g')))) is"
  using assms
proof (induction "is" arbitrary: cs g)
  case Nil
  show ?case by simp
next
  case (Cons i "is")
  let ?layer = "fst (DenseLayer_init fw (nif + i * gr) gr bn dr g)"
  let ?g = "snd (DenseLayer_init fw (nif + i * gr) gr bn dr g)"
  let ?cs = "cs @ [(''denselayer'' @ str_nat (i + 1), ?layer)]"
  from Cons.prems have fresh: "''denselayer'' @ str_nat (i + 1) \<notin> fst ` set cs" by simp
  have am: "add_module cs (''denselayer'' @ str_nat (i + 1)) ?layer = ?cs"
    using fresh by (rule add_module_fresh)
  have step: "DenseBlock_loop fw nif bn gr dr (i # is) cs g = DenseBlock_loop fw nif bn gr dr is ?cs ?g"
    by (simp only: DenseBlock_loop.simps Let_def split_beta am)
  from Cons.prems have "distinct is"
    and "\<forall>j \<in> set is. ''denselayer'' @ str_nat (j + 1) \<notin> fst ` set ?cs"
    by (auto dest: str_nat_inj)
  from Cons.IH [OF this] show ?case
    unfolding step by (simp add: strip_children_append strip_DenseLayer_init)
qed

lemma strip_DenseBlock_init:
  "strip (fst (DenseBlock_init fw num_layers nif bn gr dr g)) =
     DenseBlock (map (\<lambda>i. (''denselayer'' @ str_nat (i + 1),
                strip (fst (DenseLayer_init fw' (nif + i * gr) gr bn dr g')))) [0..<num_layers])"
  using DenseBlock_loop_children [of "[0..<num_layers]" "[]" fw nif bn gr dr g fw' g']
  by (simp add: DenseBlock_init_def split_beta)

lemma shape_forward_DenseLayer:
  assumes "0 < h" "0 < w" "dr \<le> 1" "training \<longrightarrow> n * h * w \<noteq> 1"
  shows "shape_forward training (strip (fst (DenseLayer_init fw c gr bn dr g))) [n, c, h, w]
       = Inr [n, c + gr, h, w]"
  using assms by (simp add: strip_DenseLayer_init window_def)

lemma shape_children_layers:
  assumes "0 < h" "0 < w" "dr \<le> 1" "training \<longrightarrow> n * h * w \<noteq> 1"
  shows "shape_children training
      (map (\<lambda>i. (name i, strip (fst (DenseLayer_init fw (c + i * gr) gr bn dr g)))) [0..<N])
      [n, c, h, w] = Inr [n, c + N * gr, h, w]"
proof (induction N)
  case 0
  show ?case by simp
next
  case (Suc N)
  then show ?case
    by (simp add: shape_children_append shape_forward_DenseLayer [OF assms] add.assoc add.commute)
qed

section \<open>The assembly\<close>

lemma class_name_DenseBlock_init [simp]:
  "class_name (fst (DenseBlock_init fw nl nf bn gr dr g)) = ''_DenseBlock''"
  by (simp add: DenseBlock_init_def split_beta)

lemma class_name_Transition_init [simp]:
  "class_name (fst (Transition_init fw a b g)) = ''_Transition''"
  by (simp add: Transition_init_def split_beta)

lemma blocks_loop_children:
  assumes "len = k + length bc"
      and "\<forall>j \<ge> k. ''denseblock'' @ str_nat (j + 1) \<notin> fst ` set cs
                 \<and> ''transition'' @ str_nat (j + 1) \<notin> fst ` set cs"
  shows "\<exists>mid. fst (blocks_loop fw bn gr dr len (enumerate k bc) cs nf g) = cs @ mid
           \<and> map (\<lambda>c. class_name (snd c)) mid =
               concat (map (\<lambda>i. if i + 1 < len then [''_DenseBlock'', ''_Transition'']
                                 else [''_DenseBlock'']) [k..<len])
           \<and> list_all (\<lambda>c. generated_name (fst c)) mid"
  using assms
proof (induction bc arbitrary: k cs nf g)
  case Nil
  then show ?case by simp
next
  case (Cons nl bc)
  define B where "B = fst (DenseBlock_init fw nl nf bn gr dr g)"
  define g1 where "g1 = snd (DenseBlock_init fw nl nf bn gr dr g)"
  define nf1 where "nf1 = nf + nl * gr"
  define T where "T = fst (Transition_init fw nf1 (nf1 div 2) g1)"
  define g2 where "g2 = snd (Transition_init fw nf1 (nf1 div 2) g1)"
  define db where "db = ''denseblock'' @ str_nat (k + 1)"
  define tr where "tr = ''transition'' @ str_nat (k + 1)"
  from Cons.prems(2) have fr: "db \<notin> fst ` set cs" "tr \<notin> fst ` set cs"
    by (simp_all add: db_def tr_def)
  have ne: "tr \<noteq> db" by (simp add: db_def tr_def)
  have am1: "add_module cs db B = cs @ [(db, B)]" using fr(1) by (rule add_module_fresh)
  have am2: "add_module (cs @ [(db, B)]) tr T = cs @ [(db, B), (tr, T)]"
    using fr(2) ne add_module_fresh [of tr "cs @ [(db, B)]" T] by simp
  have cond: "(int k \<noteq> int len - 1) = (bc \<noteq> [])" using Cons.prems(1) by auto
  from Cons.prems(1) have "k < len" by simp
  then have upt: "[k..<len] = k # [Suc k..<len]" by (rule upt_conv_Cons)
  have gen: "generated_name db" "generated_name tr"
    by (simp_all add: generated_name_def db_def tr_def)
  have step: "blocks_loop fw bn gr dr len (enumerate k (nl # bc)) cs nf g =
     (if bc \<noteq> [] then blocks_loop fw bn gr dr len (enumerate (Suc k) bc) (cs @ [(db, B), (tr, T)]) (nf1 div 2) g2
      else blocks_loop fw bn gr dr len (enumerate (Suc k) bc) (cs @ [(db, B)]) nf1 g1)"
    unfolding enumerate_simps blocks_loop.simps Let_def split_beta
      B_def [symmetric] g1_def [symmetric] nf1_def [symmetric] db_def [symmetric]
      tr_def [symmetric] am1 T_def [symmetric] g2_def [symmetric] am2 cond
    by (rule refl)
  show ?case
  proof (cases "bc = []")
    case True
    with Cons.prems(1) have "len = Suc k" by simp
    with True step gen show ?thesis by (simp add: B_def)
  next
    case False
    let ?cs = "cs @ [(db, B), (tr, T)]"
    from Cons.prems(1) have l: "len = Suc k + length bc" by simp
    have f: "\<forall>j \<ge> Suc k. ''denseblock'' @ str_nat (j + 1) \<notin> fst ` set ?cs
                 \<and> ''transition'' @ str_nat (j + 1) \<notin> fst ` set ?cs"
      using Cons.prems(2) by (auto simp: db_def tr_def dest: str_nat_inj)
    from Cons.IH [OF l f, of "nf1 div 2" g2] obtain mid where
      mid: "fst (blocks_loop fw bn gr dr len (enumerate (Suc k) bc) ?cs (nf1 div 2) g2) = ?cs @ mid"
        "map (\<lambda>c. class_name (snd c)) mid =
               concat (map (\<lambda>i. if i + 1 < len then [''_DenseBlock'', ''_Transition'']
                                 else [''_DenseBlock'']) [Suc k..<len])"
        "list_all (\<lambda>c. generated_name (fst c)) mid"
      by blast
    from False l have lt: "k + 1 < len" by (cases bc) simp_all
    show ?thesis
    proof (intro exI conjI)
      show "fst (blocks_loop fw bn gr dr len (enumerate k (nl # bc)) cs nf g) = cs @ ((db, B) # (tr, T) # mid)"
        using step False mid(1) by simp
      show "map (\<lambda>c. class_name (snd c)) ((db, B) # (tr, T) # mid) =
               concat (map (\<lambda>i. if i + 1 < len then [''_DenseBlock'', ''_Transition'']
                                 else [''_DenseBlock'']) [k..<len])"
        unfolding upt using lt mid(2) by (simp add: B_def T_def)
      show "list_all (\<lambda>c. generated_name (fst c)) ((db, B) # (tr, T) # mid)"
        using gen mid(3) by simp
    qed
  qed
qed

lemma class_name_strip [simp]: "class_name (strip m) = class_name m"
  by (cases m rule: class_name.cases) simp_all

lemma strip_torch_init [simp]: "strip (fst (torch_init fw l g)) = Torch l [] []"
  by (simp add: torch_init_def)

lemma map_class_name_strip_children:
  "map (\<lambda>c. class_name (snd c)) (strip_children cs) = map (\<lambda>c. class_name (snd c)) cs"
  by (induction cs) auto

lemma not_generated:
  "\<not> generated_name ''norm.f''" "\<not> generated_name ''swish.f''" "\<not> generated_name ''pool.f''"
  "\<not> generated_name ''view.f''" "\<not> generated_name ''class.f''"
  by (simp_all add: generated_name_def)

lemma generated_fresh:
  "list_all (\<lambda>c. generated_name (fst c)) mid \<Longrightarrow> \<not> generated_name name \<Longrightarrow> name \<notin> fst ` set mid"
  by (auto simp: list_all_iff)

lemma strip_stem:
  "strip_children (fst (stem fw nif g)) =
     [(''view.i'', View [- 1, 2, 129, 21]),
      (''conv.i'', Torch (Conv2d 2 nif 3 (1, 1) 1 False) [] []),
      (''norm.i'', Torch (BatchNorm2d nif) [] []),
      (''swish.i'', Swish),
      (''pool.i'', Torch (MaxPool2d 3 (2, 1) 1) [] [])]"
  by (simp add: stem_def split_beta)

lemma stem_names:
  "fst ` set (fst (stem fw nif g)) = {''view.i'', ''conv.i'', ''norm.i'', ''swish.i'', ''pool.i''}"
  by (simp add: stem_def split_beta)

lemma strip_head:
  assumes "''norm.f'' \<notin> fst ` set cs" "''swish.f'' \<notin> fst ` set cs" "''pool.f'' \<notin> fst ` set cs"
    "''view.f'' \<notin> fst ` set cs" "''class.f'' \<notin> fst ` set cs"
  shows "strip_children (fst (head fw nf y cs g)) =
     strip_children cs @
     [(''norm.f'', Torch (BatchNorm2d nf) [] []),
      (''swish.f'', Swish),
      (''pool.f'', Torch (AvgPool2d 2 (1, 1) 0) [] []),
      (''view.f'', View [- 1, 195 * 4]),
      (''class.f'', Torch (Linear (195 * 4) y) [] [])]"
proof -
  define n1 where "n1 = fst (torch_init fw (BatchNorm2d nf) g)"
  define g1 where "g1 = snd (torch_init fw (BatchNorm2d nf) g)"
  define p1 where "p1 = fst (torch_init fw (AvgPool2d 2 (1, 1) 0) g1)"
  define g2 where "g2 = snd (torch_init fw (AvgPool2d 2 (1, 1) 0) g1)"
  define l1 where "l1 = fst (torch_init fw (Linear (195 * 4) y) g2)"
  have a1: "add_module cs ''norm.f'' n1 = cs @ [(''norm.f'', n1)]"
    using assms(1) by (rule add_module_fresh)
  have a2: "add_module (cs @ [(''norm.f'', n1)]) ''swish.f'' Swish
      = cs @ [(''norm.f'', n1), (''swish.f'', Swish)]"
    using assms(2) add_module_fresh [of "''swish.f''" "cs @ [(''norm.f'', n1)]" Swish] by simp
  have a3: "add_module (cs @ [(''norm.f'', n1), (''swish.f'', Swish)]) ''pool.f'' p1
      = cs @ [(''norm.f'', n1), (''swish.f'', Swish), (''pool.f'', p1)]"
    using assms(3)
      add_module_fresh [of "''pool.f''" "cs @ [(''norm.f'', n1), (''swish.f'', Swish)]" p1]
    by simp
  have a4: "add_module (cs @ [(''norm.f'', n1), (''swish.f'', Swish), (''pool.f'', p1)]) ''view.f''
        (View [- 1, 195 * 4])
      = cs @ [(''norm.f'', n1), (''swish.f'', Swish), (''pool.f'', p1),
              (''view.f'', View [- 1, 195 * 4])]"
    using assms(4)
      add_module_fresh [of "''view.f''"
        "cs @ [(''norm.f'', n1), (''swish.f'', Swish), (''pool.f'', p1)]" "View [- 1, 195 * 4]"]
    by simp
  have a5: "add_module (cs @ [(''norm.f'', n1), (''swish.f'', Swish), (''pool.f'', p1),
              (''view.f'', View [- 1, 195 * 4])]) ''class.f'' l1
      = cs @ [(''norm.f'', n1), (''swish.f'', Swish), (''pool.f'', p1),
              (''view.f'', View [- 1, 195 * 4]), (''class.f'', l1)]"
    using assms(5)
      add_module_fresh [of "''class.f''"
        "cs @ [(''norm.f'', n1), (''swish.f'', Swish), (''pool.f'', p1),
              (''view.f'', View [- 1, 195 * 4])]" l1]
    by simp
  have "fst (head fw nf y cs g) = cs @ [(''norm.f'', n1), (''swish.f'', Swish), (''pool.f'', p1),
              (''view.f'', View [- 1, 195 * 4]), (''class.f'', l1)]"
    unfolding head_def Let_def split_beta n1_def [symmetric] g1_def [symmetric]
      p1_def [symmetric] g2_def [symmetric] l1_def [symmetric] a1 a2 a3 a4 a5 fst_conv
    by (rule refl)
  then show ?thesis
    by (simp add: strip_children_append n1_def p1_def l1_def)
qed

lemma assemble_arch:
  "\<exists>mid. strip (fst (assemble fw gr bc nif bn dr y g)) =
       Sequential
        ([(''view.i'', View [- 1, 2, 129, 21]),
          (''conv.i'', Torch (Conv2d 2 nif 3 (1, 1) 1 False) [] []),
          (''norm.i'', Torch (BatchNorm2d nif) [] []),
          (''swish.i'', Swish),
          (''pool.i'', Torch (MaxPool2d 3 (2, 1) 1) [] [])]
         @ mid @
         [(''norm.f'', Torch (BatchNorm2d
              (fst (snd (blocks_loop fw bn gr dr (length bc) (enumerate 0 bc)
                           (fst (stem fw nif g)) nif (snd (stem fw nif g)))))) [] []),
          (''swish.f'', Swish),
          (''pool.f'', Torch (AvgPool2d 2 (1, 1) 0) [] []),
          (''view.f'', View [- 1, 195 * 4]),
          (''class.f'', Torch (Linear (195 * 4) y) [] [])])
     \<and> map (\<lambda>c. class_name (snd c)) mid =
         concat (map (\<lambda>i. if i + 1 < length bc then [''_DenseBlock'', ''_Transition'']
                           else [''_DenseBlock'']) [0..<length bc])"
proof -
  define cs0 where "cs0 = fst (stem fw nif g)"
  define g1 where "g1 = snd (stem fw nif g)"
  define L where "L = blocks_loop fw bn gr dr (length bc) (enumerate 0 bc) cs0 nif g1"
  have names0: "fst ` set cs0 = {''view.i'', ''conv.i'', ''norm.i'', ''swish.i'', ''pool.i''}"
    by (simp add: cs0_def stem_names)
  have fresh0: "\<forall>j \<ge> 0. ''denseblock'' @ str_nat (j + 1) \<notin> fst ` set cs0
                 \<and> ''transition'' @ str_nat (j + 1) \<notin> fst ` set cs0"
    unfolding names0 by simp
  from blocks_loop_children [OF _ fresh0, of "length bc" bc fw bn gr dr nif g1]
  obtain mid where mid: "fst L = cs0 @ mid"
    "map (\<lambda>c. class_name (snd c)) mid =
         concat (map (\<lambda>i. if i + 1 < length bc then [''_DenseBlock'', ''_Transition'']
                           else [''_DenseBlock'']) [0..<length bc])"
    "list_all (\<lambda>c. generated_name (fst c)) mid"
    unfolding L_def by auto
  have asm: "fst (assemble fw gr bc nif bn dr y g)
      = Sequential (fst (head fw (fst (snd L)) y (fst L) (snd (snd L))))"
    by (simp add: assemble_def split_beta cs0_def g1_def L_def)
  have fresh1: "''norm.f'' \<notin> fst ` set (fst L)" "''swish.f'' \<notin> fst ` set (fst L)"
    "''pool.f'' \<notin> fst ` set (fst L)" "''view.f'' \<notin> fst ` set (fst L)"
    "''class.f'' \<notin> fst ` set (fst L)"
    using generated_fresh [OF mid(3)] not_generated
    by (simp_all add: mid(1) names0 image_Un)
  have "strip (fst (assemble fw gr bc nif bn dr y g)) =
       Sequential
        (strip_children (fst L) @
         [(''norm.f'', Torch (BatchNorm2d (fst (snd L))) [] []),
          (''swish.f'', Swish),
          (''pool.f'', Torch (AvgPool2d 2 (1, 1) 0) [] []),
          (''view.f'', View [- 1, 195 * 4]),
          (''class.f'', Torch (Linear (195 * 4) y) [] [])])"
    by (simp only: asm strip.simps strip_head [OF fresh1])
  then have "strip (fst (assemble fw gr bc nif bn dr y g)) =
       Sequential
        (strip_children cs0 @ strip_children mid @
         [(''norm.f'', Torch (BatchNorm2d (fst (snd L))) [] []),
          (''swish.f'', Swish),
          (''pool.f'', Torch (AvgPool2d 2 (1, 1) 0) [] []),
          (''view.f'', View [- 1, 195 * 4]),
          (''class.f'', Torch (Linear (195 * 4) y) [] [])])"
    by (simp add: mid(1) strip_children_append)
  then show ?thesis
    unfolding L_def cs0_def g1_def strip_stem
    using mid(2) map_class_name_strip_children [of mid]
    by (intro exI [of _ "strip_children mid"]) simp
qed

lemma strip_init_module:
  "strip (fst (init_module fw m g)) = strip m"
  "strip_children (fst (init_children fw cs g)) = strip_children cs"
proof (induction fw m g and fw cs g rule: init_module_init_children.induct)
  case (9 fw name m cs g)
  from 9(2) [of "fst (init_module fw m g)" "snd (init_module fw m g)"] 9(1)
  show ?case by (simp add: split_beta)
qed (simp_all add: split_beta)

lemma DenseNet_init_arch:
  "strip (hidden (fst (DenseNet_init fw xd y gr bc nif bn dr e g)))
     = strip (fst (assemble fw gr bc nif bn dr y g))"
  by (simp add: DenseNet_init_def split_beta strip_init_module)

lemma strip_Transition_init:
  "strip (fst (Transition_init fw a b g)) =
     Transition
       [(''norm'', Torch (BatchNorm2d a) [] []),
        (''swish'', Swish),
        (''conv'', Torch (Conv2d a b 1 (1, 1) 0 False) [] []),
        (''pool'', Torch (AvgPool2d 3 (2, 2) 1) [] [])]"
  by (simp add: Transition_init_def torch_init_def Let_def split_beta)

lemma strip_SequentialE:
  assumes "strip m = Sequential cs"
  obtains cs' where "m = Sequential cs'" "strip_children cs' = cs"
  using assms by (cases m) simp_all

lemma DenseNet_init_class_names:
  "\<exists>cs. hidden (fst (DenseNet_init fw xd y gr bc nif bn dr e g)) = Sequential cs
     \<and> map (\<lambda>c. class_name (snd c)) cs =
         [''View'', ''Conv2d'', ''BatchNorm2d'', ''Swish'', ''MaxPool2d'']
         @ concat (map (\<lambda>i. if i + 1 < length bc then [''_DenseBlock'', ''_Transition'']
                             else [''_DenseBlock'']) [0..<length bc])
         @ [''BatchNorm2d'', ''Swish'', ''AvgPool2d'', ''View'', ''Linear'']"
proof -
  define net where "net = hidden (fst (DenseNet_init fw xd y gr bc nif bn dr e g))"
  define nf where "nf = fst (snd (blocks_loop fw bn gr dr (length bc) (enumerate 0 bc)
                           (fst (stem fw nif g)) nif (snd (stem fw nif g))))"
  from assemble_arch [of fw gr bc nif bn dr y g] obtain mid where
    a: "strip net =
       Sequential
        ([(''view.i'', View [- 1, 2, 129, 21]),
          (''conv.i'', Torch (Conv2d 2 nif 3 (1, 1) 1 False) [] []),
          (''norm.i'', Torch (BatchNorm2d nif) [] []),
          (''swish.i'', Swish),
          (''pool.i'', Torch (MaxPool2d 3 (2, 1) 1) [] [])]
         @ mid @
         [(''norm.f'', Torch (BatchNorm2d nf) [] []),
          (''swish.f'', Swish),
          (''pool.f'', Torch (AvgPool2d 2 (1, 1) 0) [] []),
          (''view.f'', View [- 1, 195 * 4]),
          (''class.f'', Torch (Linear (195 * 4) y) [] [])])"
    and m: "map (\<lambda>c. class_name (snd c)) mid =
         concat (map (\<lambda>i. if i + 1 < length bc then [''_DenseBlock'', ''_Transition'']
                           else [''_DenseBlock'']) [0..<length bc])"
    unfolding net_def nf_def DenseNet_init_arch by (elim exE conjE)
  from a obtain cs where cs: "net = Sequential cs"
    and sc: "strip_children cs =
         [(''view.i'', View [- 1, 2, 129, 21]),
          (''conv.i'', Torch (Conv2d 2 nif 3 (1, 1) 1 False) [] []),
          (''norm.i'', Torch (BatchNorm2d nif) [] []),
          (''swish.i'', Swish),
          (''pool.i'', Torch (MaxPool2d 3 (2, 1) 1) [] [])]
         @ mid @
         [(''norm.f'', Torch (BatchNorm2d nf) [] []),
          (''swish.f'', Swish),
          (''pool.f'', Torch (AvgPool2d 2 (1, 1) 0) [] []),
          (''view.f'', View [- 1, 195 * 4]),
          (''class.f'', Torch (Linear (195 * 4) y) [] [])]"
    by (rule strip_SequentialE)
  have "map (\<lambda>c. class_name (snd c)) cs = map (\<lambda>c. class_name (snd c)) (strip_children cs)"
    by (simp only: map_class_name_strip_children)
  also have "\<dots> =
         [''View'', ''Conv2d'', ''BatchNorm2d'', ''Swish'', ''MaxPool2d'']
         @ concat (map (\<lambda>i. if i + 1 < length bc then [''_DenseBlock'', ''_Transition'']
                             else [''_DenseBlock'']) [0..<length bc])
         @ [''BatchNorm2d'', ''Swish'', ''AvgPool2d'', ''View'', ''Linear'']"
    unfolding sc by (simp add: m)
  finally show ?thesis using cs unfolding net_def by (intro exI conjI)
qed

lemma default_trace:
  "fst (snd (blocks_loop fw 4 4 0 5 (enumerate 0 [6, 12, 24, 48, 16]) cs 64 g)) = 195"
  by (simp add: Let_def split_beta)

lemma Sequential_front5:
  assumes "m = Sequential (a @ mid @ [c1, c2, c3, c4, c5])"
  shows "\<exists>front. m = Sequential (front @ [c1, c2, c3, c4, c5])"
proof -
  from assms have "m = Sequential ((a @ mid) @ [c1, c2, c3, c4, c5])" by simp
  then show ?thesis by (rule exI)
qed

lemma Sequential_front2:
  assumes "m = Sequential (a @ mid @ [c1, c2, c3, c4, c5])"
  shows "\<exists>front. m = Sequential (front @ [c4, c5])"
proof -
  from assms have "m = Sequential ((a @ mid @ [c1, c2, c3]) @ [c4, c5])" by simp
  then show ?thesis by (rule exI)
qed

section \<open>The initialization pass\<close>

lemma init_layer_initialized:
  assumes "params_ok (Torch l ps bs)"
  shows "initialized (Torch l (fst (init_layer fw l ps g)) bs)"
proof (cases l)
  case (BatchNorm2d nf)
  with assms obtain w b where ps: "ps = [w, b]" and s: "shape w = [nf]" "shape b = [nf]"
    and len: "length (data w) = nf" "length (data b) = nf"
    by (cases ps; cases "tl ps") auto
  show ?thesis
    by (simp add: BatchNorm2d ps fill_def s len map_replicate_const)
next
  case (Linear fin fout)
  with assms obtain w b where ps: "ps = [w, b]" and s: "shape b = [fout]"
    and len: "length (data b) = fout"
    by (cases ps; cases "tl ps") auto
  show ?thesis
    by (simp add: Linear ps fill_def s len map_replicate_const)
qed (cases ps; simp)+

lemma init_module_initialized:
  "list_all params_ok (modules m) \<Longrightarrow> list_all initialized (modules (fst (init_module fw m g)))"
  "list_all params_ok (modules_children cs)
     \<Longrightarrow> list_all initialized (modules_children (fst (init_children fw cs g)))"
proof (induction fw m g and fw cs g rule: init_module_init_children.induct)
  case (3 fw l ps bs g)
  then show ?case using init_layer_initialized [of l ps bs fw g] by (simp add: split_beta)
next
  case (9 fw name m cs g)
  from 9(2) [of "fst (init_module fw m g)" "snd (init_module fw m g)"] 9(1,3)
  show ?case by (simp add: split_beta)
qed (simp_all add: split_beta)

lemma init_module_linear_weights:
  "linear_weights (fst (init_module fw m g)) = linear_weights m"
  "linear_weights_children (fst (init_children fw cs g)) = linear_weights_children cs"
proof (induction fw m g and fw cs g rule: init_module_init_children.induct)
  case (3 fw l ps bs g)
  show ?case by (cases "(fw, l, ps, g)" rule: init_layer.cases) simp_all
next
  case (9 fw name m cs g)
  from 9(2) [of "fst (init_module fw m g)" "snd (init_module fw m g)"] 9(1)
  show ?case by (simp add: split_beta)
qed (simp_all add: split_beta)

lemma init_module_forget_conv:
  "\<forall>g'. forget_conv (fst (init_module fw m g)) = forget_conv (fst (init_module fw m g'))"
  "\<forall>g'. forget_conv_children (fst (init_children fw cs g))
        = forget_conv_children (fst (init_children fw cs g'))"
proof (induction fw m g and fw cs g rule: init_module_init_children.induct)
  case (3 fw l ps bs g)
  show ?case
  proof
    fix g'
    show "forget_conv (fst (init_module fw (Torch l ps bs) g))
        = forget_conv (fst (init_module fw (Torch l ps bs) g'))"
      by (cases "(fw, l, ps, g)" rule: init_layer.cases) simp_all
  qed
next
  case (9 fw name m cs g)
  show ?case
  proof
    fix g'
    from 9(1) have a: "forget_conv (fst (init_module fw m g)) = forget_conv (fst (init_module fw m g'))"
      by simp
    from 9(2) [of "fst (init_module fw m g)" "snd (init_module fw m g)"]
    have b: "forget_conv_children (fst (init_children fw cs (snd (init_module fw m g))))
        = forget_conv_children (fst (init_children fw cs g0))" for g0
      by simp
    from a b [of "snd (init_module fw m g')"]
    show "forget_conv_children (fst (init_children fw ((name, m) # cs) g))
        = forget_conv_children (fst (init_children fw ((name, m) # cs) g'))"
      by (simp add: split_beta)
  qed
qed (simp_all add: split_beta)

lemma modules_add_module:
  "list_all P (modules_children cs) \<Longrightarrow> list_all P (modules m)
     \<Longrightarrow> list_all P (modules_children (add_module cs name m))"
  by (induction cs) auto

lemma shape_new_tensors:
  "map (\<lambda>p. shape (case p of (j, s) \<Rightarrow> new_tensor (F j) s)) (enumerate n xs) = xs"
  by (induction xs arbitrary: n) (simp_all add: new_tensor_def)

lemma length_new_tensors:
  "list_all (\<lambda>t. length (data t) = prod_list (shape t))
     (map (\<lambda>(j, s). new_tensor (F j) s) (enumerate n xs))"
  by (induction xs arbitrary: n) (simp_all add: new_tensor_def)

lemma modules_torch_init:
  "list_all params_ok (modules (fst (torch_init fw l g)))"
  by (simp add: torch_init_def shape_new_tensors length_new_tensors comp_def)

lemma params_ok_DenseLayer_init:
  "list_all params_ok (modules (fst (DenseLayer_init fw c gr bn dr g)))"
  by (simp add: DenseLayer_init_def Let_def split_beta modules_add_module modules_torch_init)

lemma params_ok_DenseBlock_loop:
  "list_all params_ok (modules_children cs) \<Longrightarrow>
   list_all params_ok (modules_children (fst (DenseBlock_loop fw nif bn gr dr is cs g)))"
proof (induction "is" arbitrary: cs g)
  case Nil
  then show ?case by simp
next
  case (Cons i "is")
  show ?case
    unfolding DenseBlock_loop.simps Let_def split_beta
    by (rule Cons.IH, rule modules_add_module, rule Cons.prems, rule params_ok_DenseLayer_init)
qed

lemma params_ok_DenseBlock_init:
  "list_all params_ok (modules (fst (DenseBlock_init fw nl nif bn gr dr g)))"
  by (simp add: DenseBlock_init_def split_beta params_ok_DenseBlock_loop)

lemma params_ok_Transition_init:
  "list_all params_ok (modules (fst (Transition_init fw a b g)))"
  by (simp add: Transition_init_def Let_def split_beta modules_add_module modules_torch_init)

lemma params_ok_stem:
  "list_all params_ok (modules_children (fst (stem fw nif g)))"
  by (simp add: stem_def Let_def split_beta modules_torch_init)

lemma params_ok_head:
  "list_all params_ok (modules_children cs) \<Longrightarrow>
   list_all params_ok (modules_children (fst (head fw nf y cs g)))"
  by (simp add: head_def Let_def split_beta modules_add_module modules_torch_init)

lemma params_ok_blocks_loop:
  "list_all params_ok (modules_children cs) \<Longrightarrow>
   list_all params_ok (modules_children (fst (blocks_loop fw bn gr dr len es cs nf g)))"
proof (induction es arbitrary: cs nf g)
  case Nil
  then show ?case by simp
next
  case (Cons e es)
  obtain i nl where e: "e = (i, nl)" by (cases e)
  let ?B = "fst (DenseBlock_init fw nl nf bn gr dr g)"
  let ?cs1 = "add_module cs (''denseblock'' @ str_nat (i + 1)) ?B"
  have ok1: "list_all params_ok (modules_children ?cs1)"
    using Cons.prems params_ok_DenseBlock_init by (rule modules_add_module)
  show ?case
  proof (cases "int i \<noteq> int len - 1")
    case True
    have "list_all params_ok (modules_children
       (add_module ?cs1 (''transition'' @ str_nat (i + 1))
          (fst (Transition_init fw (nf + nl * gr) ((nf + nl * gr) div 2)
                 (snd (DenseBlock_init fw nl nf bn gr dr g))))))"
      using ok1 params_ok_Transition_init by (rule modules_add_module)
    from Cons.IH [OF this] True show ?thesis
      unfolding e blocks_loop.simps Let_def split_beta by simp
  next
    case False
    from Cons.IH [OF ok1] False show ?thesis
      unfolding e blocks_loop.simps Let_def split_beta by simp
  qed
qed

lemma params_ok_assemble:
  "list_all params_ok (modules (fst (assemble fw gr bc nif bn dr y g)))"
  by (simp add: assemble_def split_beta params_ok_head params_ok_blocks_loop params_ok_stem)

lemma ones_and_zeros_strip:
  fixes m :: "'a module" and cs :: "(string \<times> 'a module) list"
  shows "(ones_and_zeros (strip m) :: ('b::{zero,one}) tensor list) = ones_and_zeros m"
    and "(ones_and_zeros_children (strip_children cs) :: ('b::{zero,one}) tensor list)
           = ones_and_zeros_children cs"
proof (induction m and cs rule: strip_strip_children.induct)
  case (3 l ps bs)
  show ?case by (cases l) simp_all
qed simp_all

lemma drop1_two: "length ps = 2 \<Longrightarrow> drop (Suc 0) ps = [ps ! Suc 0]"
  by (cases ps; cases "tl ps") auto

lemma fixed_params_initialized:
  fixes m :: "('a::{zero,one}) module" and cs :: "(string \<times> 'a module) list"
  shows "list_all initialized (modules m) \<Longrightarrow> fixed_params m = ones_and_zeros m"
    and "list_all initialized (modules_children cs)
           \<Longrightarrow> fixed_params_children cs = ones_and_zeros_children cs"
proof (induction m and cs rule: strip_strip_children.induct)
  case (3 l ps bs)
  then show ?case by (cases l) (auto simp: drop1_two)
qed simp_all

lemma strip_add_module:
  "strip_children (add_module cs name m) = add_module (strip_children cs) name (strip m)"
  by (induction cs) auto

lemma strip_DenseBlock_init_indep:
  "strip (fst (DenseBlock_init fw nl nf bn gr dr g)) = strip (fst (DenseBlock_init fw' nl nf bn gr dr g'))"
  by (simp add: strip_DenseBlock_init [where fw' = fw' and g' = g'])

lemma strip_Transition_init_indep:
  "strip (fst (Transition_init fw a b g)) = strip (fst (Transition_init fw' a b g'))"
  by (simp add: strip_Transition_init)

lemma blocks_loop_indep:
  "strip_children cs = strip_children cs' \<Longrightarrow>
   strip_children (fst (blocks_loop fw bn gr dr len es cs nf g))
     = strip_children (fst (blocks_loop fw' bn gr dr len es cs' nf g'))
   \<and> fst (snd (blocks_loop fw bn gr dr len es cs nf g))
     = fst (snd (blocks_loop fw' bn gr dr len es cs' nf g'))"
proof (induction es arbitrary: cs cs' nf g g')
  case Nil
  then show ?case by simp
next
  case (Cons e es)
  obtain i nl where e: "e = (i, nl)" by (cases e)
  let ?B = "fst (DenseBlock_init fw nl nf bn gr dr g)"
  let ?B' = "fst (DenseBlock_init fw' nl nf bn gr dr g')"
  let ?g1 = "snd (DenseBlock_init fw nl nf bn gr dr g)"
  let ?g1' = "snd (DenseBlock_init fw' nl nf bn gr dr g')"
  let ?cs1 = "add_module cs (''denseblock'' @ str_nat (i + 1)) ?B"
  let ?cs1' = "add_module cs' (''denseblock'' @ str_nat (i + 1)) ?B'"
  let ?nf1 = "nf + nl * gr"
  have eq1: "strip_children ?cs1 = strip_children ?cs1'"
    by (simp only: strip_add_module Cons.prems
          strip_DenseBlock_init_indep [of fw nl nf bn gr dr g fw' g'])
  show ?case
  proof (cases "int i \<noteq> int len - 1")
    case True
    let ?T = "fst (Transition_init fw ?nf1 (?nf1 div 2) ?g1)"
    let ?T' = "fst (Transition_init fw' ?nf1 (?nf1 div 2) ?g1')"
    have eq2: "strip_children (add_module ?cs1 (''transition'' @ str_nat (i + 1)) ?T)
       = strip_children (add_module ?cs1' (''transition'' @ str_nat (i + 1)) ?T')"
      by (simp only: strip_add_module Cons.prems
            strip_DenseBlock_init_indep [of fw nl nf bn gr dr g fw' g']
            strip_Transition_init_indep [of fw ?nf1 "?nf1 div 2" ?g1 fw' ?g1'])
    from Cons.IH [OF eq2] True show ?thesis
      unfolding e blocks_loop.simps Let_def split_beta by simp
  next
    case False
    from Cons.IH [OF eq1] False show ?thesis
      unfolding e blocks_loop.simps Let_def split_beta by simp
  qed
qed

lemma strip_head_indep:
  "strip_children cs = strip_children cs' \<Longrightarrow>
   strip_children (fst (head fw nf y cs g)) = strip_children (fst (head fw' nf y cs' g'))"
  by (simp add: head_def Let_def split_beta strip_add_module)

lemma assemble_indep:
  "strip (fst (assemble fw gr bc nif bn dr y g)) = strip (fst (assemble fw' gr bc nif bn dr y g'))"
proof -
  define L where "L = blocks_loop fw bn gr dr (length bc) (enumerate 0 bc)
                        (fst (stem fw nif g)) nif (snd (stem fw nif g))"
  define L' where "L' = blocks_loop fw' bn gr dr (length bc) (enumerate 0 bc)
                        (fst (stem fw' nif g')) nif (snd (stem fw' nif g'))"
  have s: "strip_children (fst (stem fw nif g)) = strip_children (fst (stem fw' nif g'))"
    by (simp add: strip_stem)
  from blocks_loop_indep [OF s, where fw = fw and fw' = fw' and bn = bn and gr = gr and dr = dr
      and len = "length bc" and es = "enumerate 0 bc" and nf = nif
      and g = "snd (stem fw nif g)" and g' = "snd (stem fw' nif g')"]
  have b: "strip_children (fst L) = strip_children (fst L')" "fst (snd L) = fst (snd L')"
    unfolding L_def L'_def by simp_all
  have "strip_children (fst (head fw (fst (snd L)) y (fst L) (snd (snd L))))
      = strip_children (fst (head fw' (fst (snd L)) y (fst L') (snd (snd L'))))"
    using b(1) by (rule strip_head_indep)
  then show ?thesis
    unfolding assemble_def split_beta Let_def L_def [symmetric] L'_def [symmetric] b(2)
    by simp
qed

lemma DenseNet_init_hidden:
  "hidden (fst (DenseNet_init fw xd y gr bc nif bn dr e g)) =
     fst (init_module fw (fst (assemble fw gr bc nif bn dr y g)) (snd (assemble fw gr bc nif bn dr y g)))"
  by (simp add: DenseNet_init_def split_beta)

lemma DenseNet_init_initialized:
  "list_all initialized (modules (hidden (fst (DenseNet_init fw xd y gr bc nif bn dr e g))))"
  unfolding DenseNet_init_hidden
  by (rule init_module_initialized) (rule params_ok_assemble)

lemma DenseNet_init_fixed_params:
  fixes fw :: "('a::{zero,one}, 'g) framework" and fw' :: "('a, 'h) framework"
  shows "fixed_params (hidden (fst (DenseNet_init fw xd y gr bc nif bn dr e g)))
     = ones_and_zeros (fst (assemble fw' gr bc nif bn dr y g'))"
proof -
  have "fixed_params (hidden (fst (DenseNet_init fw xd y gr bc nif bn dr e g)))
      = ones_and_zeros (hidden (fst (DenseNet_init fw xd y gr bc nif bn dr e g)))"
    using DenseNet_init_initialized by (rule fixed_params_initialized)
  also have "\<dots> = ones_and_zeros (strip (hidden (fst (DenseNet_init fw xd y gr bc nif bn dr e g))))"
    by (simp only: ones_and_zeros_strip)
  also have "\<dots> = ones_and_zeros (strip (fst (assemble fw' gr bc nif bn dr y g')))"
    by (simp only: DenseNet_init_arch assemble_indep [of fw gr bc nif bn dr y g fw' g'])
  also have "\<dots> = ones_and_zeros (fst (assemble fw' gr bc nif bn dr y g'))"
    by (simp only: ones_and_zeros_strip)
  finally show ?thesis .
qed


section \<open>The convolution weights after the initialization pass\<close>

lemma kaiming_fills_append:
  "kaiming_fills fw g (a @ b) =
     kaiming_fills fw g a @ kaiming_fills fw ((fw_next fw ^^ length a) g) b"
  by (induction a arbitrary: g) (simp_all add: funpow_swap1)

lemma init_layer_conv:
  assumes "params_ok (Torch l ps bs)"
  shows "conv_weights (Torch l (fst (init_layer fw l ps g)) bs) = kaiming_fills fw g (conv_shapes (Torch l ps bs))
       \<and> snd (init_layer fw l ps g) = (fw_next fw ^^ length (conv_shapes (Torch l ps bs))) g"
proof (cases l)
  case (Conv2d cin cout k st p b)
  with assms obtain w ps' where ps: "ps = w # ps'" and s: "shape w = [cout, cin, k, k]"
    and len: "length (data w) = cout * (cin * (k * k))"
    by (cases ps) auto
  show ?thesis
    by (simp add: Conv2d ps kaiming_normal_def s len)
next
  case (BatchNorm2d nf)
  with assms obtain w b where ps: "ps = [w, b]"
    by (cases ps; cases "tl ps") auto
  show ?thesis by (simp add: BatchNorm2d ps)
next
  case (Linear fin fout)
  with assms obtain w b where ps: "ps = [w, b]"
    by (cases ps; cases "tl ps") auto
  show ?thesis by (simp add: Linear ps)
next
  case (MaxPool2d k st p)
  with assms show ?thesis by simp
next
  case (AvgPool2d k st p)
  with assms show ?thesis by simp
qed

lemma init_module_conv:
  "list_all params_ok (modules m) \<Longrightarrow>
     conv_weights (fst (init_module fw m g)) = kaiming_fills fw g (conv_shapes m)
     \<and> snd (init_module fw m g) = (fw_next fw ^^ length (conv_shapes m)) g"
  "list_all params_ok (modules_children cs) \<Longrightarrow>
     conv_weights_children (fst (init_children fw cs g)) = kaiming_fills fw g (conv_shapes_children cs)
     \<and> snd (init_children fw cs g) = (fw_next fw ^^ length (conv_shapes_children cs)) g"
proof (induction fw m g and fw cs g rule: init_module_init_children.induct)
  case (3 fw l ps bs g)
  then show ?case using init_layer_conv [of l ps bs fw g] by (simp add: split_beta)
next
  case (9 fw name m cs g)
  have comm: "(fw_next fw ^^ (length (conv_shapes m) + length (conv_shapes_children cs))) g
      = (fw_next fw ^^ length (conv_shapes_children cs)) ((fw_next fw ^^ length (conv_shapes m)) g)"
    by (subst add.commute) (simp add: funpow_add)
  from 9(2) [of "fst (init_module fw m g)" "snd (init_module fw m g)"] 9(1,3)
  show ?case by (simp add: split_beta kaiming_fills_append comm)
qed (simp_all add: split_beta)

lemma conv_shapes_strip:
  fixes m :: "'a module" and cs :: "(string \<times> 'a module) list"
  shows "conv_shapes (strip m) = conv_shapes m"
    and "conv_shapes_children (strip_children cs) = conv_shapes_children cs"
proof (induction m and cs rule: strip_strip_children.induct)
  case (3 l ps bs)
  show ?case by (cases l) simp_all
qed simp_all

lemma conv_shapes_children_append:
  "conv_shapes_children (cs @ ds) = conv_shapes_children cs @ conv_shapes_children ds"
  by (induction cs) auto

lemma conv_shapes_assemble:
  "\<exists>rest. conv_shapes (fst (assemble fw gr bc nif bn dr y g)) = [nif, 2, 3, 3] # rest"
proof -
  from assemble_arch [of fw gr bc nif bn dr y g] obtain cs where
    a: "strip (fst (assemble fw gr bc nif bn dr y g)) =
          Sequential ([(''view.i'', View [- 1, 2, 129, 21]),
                       (''conv.i'', Torch (Conv2d 2 nif 3 (1, 1) 1 False) [] []),
                       (''norm.i'', Torch (BatchNorm2d nif) [] []),
                       (''swish.i'', Swish),
                       (''pool.i'', Torch (MaxPool2d 3 (2, 1) 1) [] [])] @ cs)"
    by (elim exE conjE) (rule that)
  have "conv_shapes (fst (assemble fw gr bc nif bn dr y g))
      = conv_shapes (strip (fst (assemble fw gr bc nif bn dr y g)))"
    by (simp only: conv_shapes_strip)
  also have "\<dots> = [nif, 2, 3, 3] # conv_shapes_children cs"
    unfolding a by simp
  finally show ?thesis by (rule exI)
qed

lemma kaiming_fills_differ:
  assumes "i < prod_list s" and "fw_kaiming_normal fw g1 s i \<noteq> fw_kaiming_normal fw g2 s i"
  shows "kaiming_fills fw g1 (s # ss) \<noteq> kaiming_fills fw g2 (s # ss)"
proof
  assume "kaiming_fills fw g1 (s # ss) = kaiming_fills fw g2 (s # ss)"
  then have "map (fw_kaiming_normal fw g1 s) [0..<prod_list s]
           = map (fw_kaiming_normal fw g2 s) [0..<prod_list s]" by simp
  then have "map (fw_kaiming_normal fw g1 s) [0..<prod_list s] ! i
           = map (fw_kaiming_normal fw g2 s) [0..<prod_list s] ! i" by (rule arg_cong)
  with assms show False by simp
qed

lemma DenseNet_init_conv_weights:
  "conv_weights (hidden (fst (DenseNet_init fw xd y gr bc nif bn dr e g)))
     = kaiming_fills fw (snd (assemble fw gr bc nif bn dr y g))
         (conv_shapes (fst (assemble fw gr bc nif bn dr y g)))"
  unfolding DenseNet_init_hidden
  by (rule init_module_conv(1) [OF params_ok_assemble, THEN conjunct1])

lemma conv_shapes_assemble_indep:
  fixes fw :: "('a, 'g) framework" and fw' :: "('a, 'h) framework"
  shows "conv_shapes (fst (assemble fw gr bc nif bn dr y g)) = conv_shapes (fst (assemble fw' gr bc nif bn dr y g'))"
proof -
  have "conv_shapes (fst (assemble fw gr bc nif bn dr y g))
      = conv_shapes (strip (fst (assemble fw gr bc nif bn dr y g)))"
    by (simp only: conv_shapes_strip)
  also have "\<dots> = conv_shapes (strip (fst (assemble fw' gr bc nif bn dr y g')))"
    by (simp only: assemble_indep [of fw gr bc nif bn dr y g fw' g'])
  also have "\<dots> = conv_shapes (fst (assemble fw' gr bc nif bn dr y g'))"
    by (simp only: conv_shapes_strip)
  finally show ?thesis .
qed

lemma init_pass_conv_differ:
  assumes "i < prod_list [nif, 2, 3, 3]"
      and "fw_kaiming_normal fw g1 [nif, 2, 3, 3] i \<noteq> fw_kaiming_normal fw g2 [nif, 2, 3, 3] i"
  shows "conv_weights (fst (init_module fw (fst (assemble fw gr bc nif bn dr y g)) g1))
       \<noteq> conv_weights (fst (init_module fw (fst (assemble fw gr bc nif bn dr y g)) g2))"
proof -
  obtain rest where r: "conv_shapes (fst (assemble fw gr bc nif bn dr y g)) = [nif, 2, 3, 3] # rest"
    using conv_shapes_assemble [of fw gr bc nif bn dr y g] by (elim exE)
  show ?thesis
    unfolding init_module_conv(1) [OF params_ok_assemble, THEN conjunct1] r
    using assms by (rule kaiming_fills_differ)
qed

lemma DenseNet_init_conv_differ:
  assumes "i < prod_list [nif, 2, 3, 3]"
      and "fw_kaiming_normal fw (snd (assemble fw gr bc nif bn dr y g)) [nif, 2, 3, 3] i
         \<noteq> fw_kaiming_normal fw (snd (assemble fw gr bc nif bn dr y g')) [nif, 2, 3, 3] i"
  shows "conv_weights (hidden (fst (DenseNet_init fw xd y gr bc nif bn dr e g)))
       \<noteq> conv_weights (hidden (fst (DenseNet_init fw xd y gr bc nif bn dr e g')))"
proof -
  obtain rest where r: "conv_shapes (fst (assemble fw gr bc nif bn dr y g)) = [nif, 2, 3, 3] # rest"
    using conv_shapes_assemble [of fw gr bc nif bn dr y g] by (elim exE)
  have r': "conv_shapes (fst (assemble fw gr bc nif bn dr y g')) = [nif, 2, 3, 3] # rest"
    using r by (simp only: conv_shapes_assemble_indep [of fw gr bc nif bn dr y g' fw g])
  show ?thesis
    unfolding DenseNet_init_conv_weights r r'
    using assms by (rule kaiming_fills_differ)
qed

section \<open>The concrete framework\<close>

lemma DenseNet_forward_fw0:
  "fst (DenseNet_forward fw0 training net g x softmax) = fst (forward fw0 training (hidden net) g x)"
  by (cases "forward fw0 training (hidden net) g x")
     (auto simp: DenseNet_forward_def fw0_def split: sum.splits)

section \<open>The default configuration\<close>

text \<open>
  Claim C3. With the defaults \<open>growth_rate = 4\<close>, \<open>block_config = (6, 12, 24, 48, 16)\<close> and
  \<open>num_init_features = 64\<close> (and \<open>bn_size = 4\<close>, \<open>drop_rate = 0\<close>), the loop over the block
  configuration, which adds \<open>num_layers * growth_rate\<close> channels at every dense block and
  halves the count at every transition, ends with \<open>num_features = 195\<close>: the channel count
  of the hard-coded flatten size \<open>195 * 4\<close>. This holds whatever the children of \<open>hidden\<close>
  and the generator state are when the loop starts. Accordingly the last five modules of
  the default network are the normalization of 195 channels, the activation, the pooling,
  the reshape to \<open>195 * 4\<close> and the linear layer on \<open>195 * 4\<close> features.
\<close>

theorem default_channel_trace:
  "fst (snd (blocks_loop fw 4 4 0 5 (enumerate 0 [6, 12, 24, 48, 16]) cs 64 g)) = 195
   \<and> (\<exists>front.
        strip (hidden (fst (DenseNet_init fw x_dim' y_dim' 4 [6, 12, 24, 48, 16] 64 4 0 eps' g0))) =
          Sequential
           (front @
            [(''norm.f'', Torch (BatchNorm2d 195) [] []),
             (''swish.f'', Swish),
             (''pool.f'', Torch (AvgPool2d 2 (1, 1) 0) [] []),
             (''view.f'', View [- 1, 195 * 4]),
             (''class.f'', Torch (Linear (195 * 4) y_dim') [] [])]))"
proof -
  have len: "length [6, 12, 24, 48, 16 :: nat] = 5" by simp
  from assemble_arch [of fw 4 "[6, 12, 24, 48, 16]" 64 4 0 y_dim' g0]
  have "\<exists>front.
        strip (hidden (fst (DenseNet_init fw x_dim' y_dim' 4 [6, 12, 24, 48, 16] 64 4 0 eps' g0))) =
          Sequential
           (front @
            [(''norm.f'', Torch (BatchNorm2d 195) [] []),
             (''swish.f'', Swish),
             (''pool.f'', Torch (AvgPool2d 2 (1, 1) 0) [] []),
             (''view.f'', View [- 1, 195 * 4]),
             (''class.f'', Torch (Linear (195 * 4) y_dim') [] [])])"
    unfolding DenseNet_init_arch len default_trace
    by (elim exE conjE) (rule Sequential_front5)
  with default_trace [of fw cs g] show ?thesis by (rule conjI)
qed

section \<open>The final reshape\<close>

text \<open>
  Claim C10. In every network that \<^verbatim>\<open>DenseNet.__init__\<close> builds, whatever the block
  configuration, the module before the classifier is \<^verbatim>\<open>View(dim=(-1, 195 * 4))\<close>. On a tensor whose number
  of elements is a multiple of 780 it returns, without an error, the same elements with
  the shape (number of elements div 780, 780), whatever the shape was; it raises exactly
  when the number of elements is not a multiple of 780.
\<close>

theorem final_view_wildcard:
  "(\<exists>front.
      strip (hidden (fst (DenseNet_init fw x_dim' y_dim' growth_rate block_config
                            num_init_features bn_size drop_rate eps' g))) =
        Sequential
         (front @
          [(''view.f'', View [- 1, 195 * 4]),
           (''class.f'', Torch (Linear (195 * 4) y_dim') [] [])]))
   \<and> View_forward [- 1, 195 * 4] x =
       (if numel x mod 780 = 0 then Inr (Tensor [numel x div 780, 780] (data x))
        else Inl RuntimeError)"
proof -
  from assemble_arch [of fw growth_rate block_config num_init_features bn_size drop_rate y_dim' g]
  have s: "\<exists>front.
      strip (hidden (fst (DenseNet_init fw x_dim' y_dim' growth_rate block_config
                            num_init_features bn_size drop_rate eps' g))) =
        Sequential
         (front @
          [(''view.f'', View [- 1, 195 * 4]),
           (''class.f'', Torch (Linear (195 * 4) y_dim') [] [])])"
    unfolding DenseNet_init_arch by (elim exE conjE) (rule Sequential_front2)
  have "(int (numel x) mod 780 = 0) = (numel x mod 780 = 0)" by presburger
  then have "View_forward [- 1, 195 * 4] x =
       (if numel x mod 780 = 0 then Inr (Tensor [numel x div 780, 780] (data x))
        else Inl RuntimeError)"
    by (simp add: View_forward_def view_def infer_size_def)
  with s show ?thesis by (rule conjI)
qed

section \<open>The dense layer concatenates\<close>

text \<open>
  Claim C1. Let \<open>layer\<close> have the architecture of \<^verbatim>\<open>_DenseLayer(C, growth_rate, bn_size,
  drop_rate)\<close>, with any parameter and buffer values and a dropout probability of at most 1,
  and let \<open>x\<close> be a tensor of shape \<open>(n, C, h, w)\<close> that the normalization layers accept: in
  evaluation mode every such \<open>x\<close>, in training mode one with more than one value per channel
  (\<open>n * h * w \<noteq> 1\<close>; on a single value \<^verbatim>\<open>norm.1\<close> raises \<^verbatim>\<open>ValueError\<close>). From every
  generator state, the forward pass returns a tensor \<open>y\<close> that is the concatenation along the
  channel axis of \<open>x\<close> and of a tensor of \<open>growth_rate\<close> new channels: \<open>y\<close> has
  \<open>C + growth_rate\<close> channels, and its first \<open>C\<close> channels are \<open>x\<close> itself.
\<close>

theorem DenseLayer_forward_concat:
  assumes arch: "strip layer = strip (fst (DenseLayer_init fw' C growth_rate bn_size drop_rate g0))"
      and ok: "tensor_ok x"
      and sx: "shape x = [n, C, h, w]"
      and dr: "drop_rate \<le> 1"
      and bn: "training \<longrightarrow> n * h * w \<noteq> 1"
  shows "\<exists>y new_features.
           fst (forward fw training layer g x) = Inr y
         \<and> cat_dim1 x new_features = Inr y
         \<and> shape new_features = [n, growth_rate, h, w]
         \<and> shape y = [n, C + growth_rate, h, w]
         \<and> narrow_dim1 y 0 C = Inr x"
proof -
  from ok sx have pos: "0 < h" "0 < w" and len: "length (data x) = prod_list (shape x)"
    by (simp_all add: tensor_ok_def)
  from arch obtain cs where layer: "layer = DenseLayer cs drop_rate"
    and cs: "strip_children cs =
       [(''norm.1'', Torch (BatchNorm2d C) [] []),
        (''swish.1'', Swish),
        (''conv.1'', Torch (Conv2d C (bn_size * growth_rate) 1 (1, 1) 0 False) [] []),
        (''norm.2'', Torch (BatchNorm2d (bn_size * growth_rate)) [] []),
        (''swish.2'', Swish),
        (''conv.2'', Torch (Conv2d (bn_size * growth_rate) growth_rate 3 (1, 1) 1 False) [] [])]"
    unfolding strip_DenseLayer_init by (rule strip_DenseLayerE)
  have "shape_children training cs [n, C, h, w]
      = shape_children training (strip_children cs) [n, C, h, w]"
    by (simp add: shape_strip)
  also have "\<dots> = Inr [n, growth_rate, h, w]"
    unfolding cs using pos bn by (rule shape_children_DenseLayer)
  finally have "result_shape (fst (forward_children fw training cs g x)) = Inr [n, growth_rate, h, w]"
    by (simp add: forward_shape sx)
  then obtain nf cs' g' where fc: "forward_children fw training cs g x = (Inr nf, cs', g')"
    and snf: "shape nf = [n, growth_rate, h, w]"
    by (cases "forward_children fw training cs g x"; cases "fst (forward_children fw training cs g x)")
       auto
  from fc len have lnf: "length (data nf) = prod_list (shape nf)"
    using forward_data_ok(2) [of x fw training cs g nf] by simp
  obtain nf' g'' where d: "(if 0 < drop_rate then dropout fw nf drop_rate training g'
                 else (Inr nf, g')) = (Inr nf', g'')"
    and snf': "shape nf' = shape nf" and lnf': "length (data nf') = length (data nf)"
    using dr by (cases "0 < drop_rate"; cases training) (auto simp: dropout_def)
  from fc d have fwd: "fst (forward fw training layer g x) = cat_dim1 x nf'"
    by (simp add: layer)
  obtain xs where x: "x = Tensor [n, C, h, w] xs" using sx by (cases x) simp
  obtain ys where nf': "nf' = Tensor [n, growth_rate, h, w] ys" using snf snf' by (cases nf') simp
  define y where "y = Tensor [n, C + growth_rate, h, w]
     (concat (map (\<lambda>i. chunk (C * prod_list [h, w]) xs i @ chunk (growth_rate * prod_list [h, w]) ys i) [0..<n]))"
  have cat: "cat_dim1 x nf' = Inr y" by (simp add: x nf' y_def)
  from lnf lnf' snf snf' have "length (data nf') = prod_list (shape nf')" by simp
  from narrow_cat_dim1 [OF len this cat] sx have "narrow_dim1 y 0 C = Inr x" by simp
  with fwd cat snf snf' show ?thesis by (auto simp: y_def)
qed

theorem DenseLayer_forward_concat_witness:
  "strip (fst (DenseLayer_init fw0 1 2 1 (1 / 2) 0)) = strip (fst (DenseLayer_init fw0 1 2 1 (1 / 2) 7))
   \<and> tensor_ok (Tensor [2, 1, 1, 2] [1, 2, 3, 4 :: int])
   \<and> (1 / 2 :: real) \<le> 1
   \<and> (\<exists>y new_features.
         fst (forward fw0 True (fst (DenseLayer_init fw0 1 2 1 (1 / 2) 0)) 0
                (Tensor [2, 1, 1, 2] [1, 2, 3, 4])) = Inr y
       \<and> cat_dim1 (Tensor [2, 1, 1, 2] [1, 2, 3, 4]) new_features = Inr y
       \<and> shape new_features = [2, 2, 1, 2]
       \<and> shape y = [2, 1 + 2, 1, 2]
       \<and> narrow_dim1 y 0 1 = Inr (Tensor [2, 1, 1, 2] [1, 2, 3, 4]))"
proof -
  have a: "strip (fst (DenseLayer_init fw0 1 2 1 (1 / 2) 0))
         = strip (fst (DenseLayer_init fw0 1 2 1 (1 / 2) 7))"
    by (simp add: strip_DenseLayer_init)
  have b: "tensor_ok (Tensor [2, 1, 1, 2] [1, 2, 3, 4 :: int])" by (simp add: tensor_ok_def)
  have c: "shape (Tensor [2, 1, 1, 2] [1, 2, 3, 4 :: int]) = [2, 1, 1, 2]" by simp
  have d: "(1 / 2 :: real) \<le> 1" by simp
  have e: "True \<longrightarrow> (2 :: nat) * 1 * 2 \<noteq> 1" by simp
  from DenseLayer_forward_concat [OF a b c d e, where fw = fw0 and g = 0] a b d
  show ?thesis by simp
qed

section \<open>The forward pass and the parameters\<close>

text \<open>
  Claim C8. A forward pass of the network, in either mode, on any input, from any
  generator state, with or without the softmax, leaves the parameter tensors of the module
  tree as they were, also when it raises; the same holds for the forward pass of every
  module of the tree, the dense layer among them. (In training mode the buffers of the
  normalization layers do change, when the pass reaches them without raising.)
\<close>

theorem forward_keeps_parameters:
  "parameters (hidden (fst (snd (DenseNet_forward fw training net g x softmax)))) = parameters (hidden net)
   \<and> parameters (fst (snd (forward fw training m g x))) = parameters m"
proof -
  have "parameters (hidden (fst (snd (DenseNet_forward fw training net g x softmax))))
      = parameters (fst (snd (forward fw training (hidden net) g x)))"
    by (cases "forward fw training (hidden net) g x")
       (auto simp: DenseNet_forward_def split: sum.splits)
  then show ?thesis by (simp add: forward_parameters)
qed

theorem forward_keeps_parameters_witness:
  "fst (snd (forward fw0 True (fst (DenseLayer_init fw0 1 1 1 0 0)) 0 (Tensor [2, 1, 1, 1] [5, 6])))
     \<noteq> fst (DenseLayer_init fw0 1 1 1 0 0)
   \<and> parameters (fst (snd (forward fw0 True (fst (DenseLayer_init fw0 1 1 1 0 0)) 0 (Tensor [2, 1, 1, 1] [5, 6]))))
     = parameters (fst (DenseLayer_init fw0 1 1 1 0 0))"
proof -
  have "fst (snd (forward fw0 True (fst (DenseLayer_init fw0 1 1 1 0 0)) 0 (Tensor [2, 1, 1, 1] [5, 6])))
     \<noteq> fst (DenseLayer_init fw0 1 1 1 0 0)"
    by (simp add: DenseLayer_init_def torch_init_def new_tensor_def fw0_def torch_forward_def
     Swish_forward_def window_def chunk_def)
  with forward_keeps_parameters [of fw0 True _ 0 "Tensor [2, 1, 1, 1] [5, 6]" _ "fst (DenseLayer_init fw0 1 1 1 0 0)"]
  show ?thesis by simp
qed

section \<open>Determinism in evaluation mode\<close>

text \<open>
  Claim C9. Let the network be constructed with dropout probability 0. In evaluation mode
  a forward pass leaves the network and the generator as they were, so that a second pass
  on the same input runs on the same parameter values, and it returns the result of the
  first. The result is also the same from every other generator state.
\<close>

theorem eval_forward_deterministic:
  assumes "net = fst (DenseNet_init fw x_dim' y_dim' growth_rate block_config num_init_features
                        bn_size 0 eps' g0)"
      and "DenseNet_forward fw False net g x softmax = (r, net', g')"
  shows "net' = net \<and> g' = g
       \<and> fst (DenseNet_forward fw False net' g' x softmax) = r
       \<and> (\<forall>g''. fst (DenseNet_forward fw False net g'' x softmax) = r)"
proof -
  from assms(2) DenseNet_forward_eval [of fw net g x softmax g]
  have "net' = net" "g' = g" by simp_all
  moreover from assms(2) have "fst (DenseNet_forward fw False net g x softmax) = r" by simp
  moreover have "fst (DenseNet_forward fw False net g'' x softmax) = r" for g''
    using DenseNet_forward_eval [of fw net g'' x softmax g] assms(2) by simp
  ultimately show ?thesis by simp
qed

theorem eval_forward_deterministic_witness:
  "(\<exists>y. fst (DenseNet_forward fw0 False (fst (DenseNet_init fw0 5418 3 25 [1, 1] 4 2 0 (1 / 10) 0)) 5
               (Tensor [1, 5418] (replicate 5418 1)) True) = Inr y
        \<and> shape y = [16, 3])
   \<and> fst (snd (DenseNet_forward fw0 False (fst (DenseNet_init fw0 5418 3 25 [1, 1] 4 2 0 (1 / 10) 0)) 5
               (Tensor [1, 5418] (replicate 5418 1)) True))
     = fst (DenseNet_init fw0 5418 3 25 [1, 1] 4 2 0 (1 / 10) 0)
   \<and> snd (snd (DenseNet_forward fw0 False (fst (DenseNet_init fw0 5418 3 25 [1, 1] 4 2 0 (1 / 10) 0)) 5
               (Tensor [1, 5418] (replicate 5418 1)) True)) = 5
   \<and> (\<forall>g. fst (DenseNet_forward fw0 False (fst (DenseNet_init fw0 5418 3 25 [1, 1] 4 2 0 (1 / 10) 0)) g
               (Tensor [1, 5418] (replicate 5418 1)) True)
       = fst (DenseNet_forward fw0 False (fst (DenseNet_init fw0 5418 3 25 [1, 1] 4 2 0 (1 / 10) 0)) 5
               (Tensor [1, 5418] (replicate 5418 1)) True))"
proof -
  define net0 where "net0 = fst (DenseNet_init fw0 5418 3 25 [1, 1] 4 2 0 (1 / 10) 0)"
  define x0 where "x0 = Tensor [1, 5418] (replicate 5418 (1 :: int))"
  obtain r net' g' where run: "DenseNet_forward fw0 False net0 5 x0 True = (r, net', g')"
    using prod_cases3 by blast
  note E = eval_forward_deterministic [OF net0_def run]
  have sx: "shape x0 = [1, 5418]" unfolding x0_def by (rule tensor.sel)
  have "result_shape r = result_shape (fst (DenseNet_forward fw0 False net0 5 x0 True))"
    by (simp only: run fst_conv)
  also have "\<dots> = shape_forward False (hidden net0) [1, 5418]"
    by (simp only: DenseNet_forward_fw0 forward_shape sx)
  also have "\<dots> = shape_forward False (strip (hidden net0)) [1, 5418]"
    by (simp only: shape_strip)
  also have "\<dots> = shape_forward False (strip (fst (assemble fw0 25 [1, 1] 4 2 0 3 0))) [1, 5418]"
    unfolding net0_def by (simp only: DenseNet_init_arch)
  also have "\<dots> = Inr [16, 3]"
    by (simp add: assemble_def stem_def head_def DenseBlock_init_def DenseLayer_init_def
      Transition_init_def torch_init_def Let_def split_beta str_nat.simps digit_def
      infer_size_def window_def)
  finally have "result_shape r = Inr [16, 3]" .
  then have ex: "\<exists>y. r = Inr y \<and> shape y = [16, 3]" by (cases r) simp_all
  have "(\<exists>y. fst (DenseNet_forward fw0 False net0 5 x0 True) = Inr y \<and> shape y = [16, 3])
   \<and> fst (snd (DenseNet_forward fw0 False net0 5 x0 True)) = net0
   \<and> snd (snd (DenseNet_forward fw0 False net0 5 x0 True)) = 5
   \<and> (\<forall>g. fst (DenseNet_forward fw0 False net0 g x0 True)
       = fst (DenseNet_forward fw0 False net0 5 x0 True))"
    unfolding run fst_conv snd_conv
    using ex E [THEN conjunct1] E [THEN conjunct2, THEN conjunct1]
      E [THEN conjunct2, THEN conjunct2, THEN conjunct2]
    by (intro conjI)
  then show ?thesis unfolding net0_def x0_def .
qed

section \<open>The dense block is a chain\<close>

text \<open>
  Claim C2. Let \<open>block\<close> have the architecture of \<^verbatim>\<open>_DenseBlock(N, initial_channels, bn_size,
  growth_rate, drop_rate)\<close>. Its children are exactly \<open>N\<close> dense layers, named
  \<^verbatim>\<open>denselayer1\<close>, ..., in this order, and layer \<open>i\<close> (counted from 0) has the architecture of
  \<^verbatim>\<open>_DenseLayer(initial_channels + i * growth_rate, growth_rate, bn_size, drop_rate)\<close>. The
  forward pass of the block is the forward pass of the children in sequence, each on the
  result of the one before. On an input of shape \<open>(n, initial_channels, h, w)\<close> that the
  normalization layers accept (in training mode more than one value per channel,
  \<open>n * h * w \<noteq> 1\<close>), with a dropout probability of at most 1, it returns a tensor with
  \<open>initial_channels + N * growth_rate\<close> channels.
\<close>

theorem DenseBlock_chain:
  assumes arch: "strip block = strip (fst (DenseBlock_init fw' N initial_channels bn_size growth_rate drop_rate g0))"
      and ok: "tensor_ok x"
      and sx: "shape x = [n, initial_channels, h, w]"
      and dr: "drop_rate \<le> 1"
      and bn: "training \<longrightarrow> n * h * w \<noteq> 1"
  shows "strip block = DenseBlock
           (map (\<lambda>i. (''denselayer'' @ str_nat (i + 1),
                       strip (fst (DenseLayer_init fw' (initial_channels + i * growth_rate)
                                     growth_rate bn_size drop_rate g0))))
                [0..<N])
       \<and> (\<exists>cs. block = DenseBlock cs \<and> length cs = N
             \<and> forward fw training block g x =
                 (case forward_children fw training cs g x of (r, cs', g') \<Rightarrow> (r, DenseBlock cs', g')))
       \<and> (\<exists>y. fst (forward fw training block g x) = Inr y
             \<and> shape y = [n, initial_channels + N * growth_rate, h, w])"
proof -
  let ?layers = "map (\<lambda>i. (''denselayer'' @ str_nat (i + 1),
                       strip (fst (DenseLayer_init fw' (initial_channels + i * growth_rate)
                                     growth_rate bn_size drop_rate g0))))
                [0..<N]"
  from ok sx have pos: "0 < h" "0 < w" by (simp_all add: tensor_ok_def)
  from arch have a: "strip block = DenseBlock ?layers"
    by (simp add: strip_DenseBlock_init [where fw' = fw' and g' = g0])
  then obtain cs where b: "block = DenseBlock cs" and cs: "strip_children cs = ?layers"
    by (cases block) simp_all
  have "length (strip_children cs) = length cs" by (induction cs) auto
  with cs have len: "length cs = N" by simp
  have "shape_forward training block [n, initial_channels, h, w]
      = shape_forward training (strip block) [n, initial_channels, h, w]"
    by (simp add: shape_strip)
  also have "\<dots> = Inr [n, initial_channels + N * growth_rate, h, w]"
    unfolding a using shape_children_layers [OF pos dr bn] by simp
  finally have "result_shape (fst (forward fw training block g x))
      = Inr [n, initial_channels + N * growth_rate, h, w]"
    by (simp add: forward_shape sx)
  then have "\<exists>y. fst (forward fw training block g x) = Inr y
             \<and> shape y = [n, initial_channels + N * growth_rate, h, w]"
    by (cases "fst (forward fw training block g x)") auto
  with a b len show ?thesis by auto
qed

theorem DenseBlock_chain_witness:
  "tensor_ok (Tensor [2, 3, 2, 2] (replicate 24 (0 :: int)))
   \<and> (1 / 2 :: real) \<le> 1
   \<and> (\<exists>y. fst (forward fw0 True (fst (DenseBlock_init fw0 2 3 4 5 (1 / 2) 0)) 0
                  (Tensor [2, 3, 2, 2] (replicate 24 0))) = Inr y
           \<and> shape y = [2, 3 + 2 * 5, 2, 2])"
proof -
  have b: "tensor_ok (Tensor [2, 3, 2, 2] (replicate 24 (0 :: int)))" by (simp add: tensor_ok_def)
  have c: "shape (Tensor [2, 3, 2, 2] (replicate 24 (0 :: int))) = [2, 3, 2, 2]" by simp
  have d: "(1 / 2 :: real) \<le> 1" by simp
  have a: "strip (fst (DenseBlock_init fw0 2 3 4 5 (1 / 2) 0))
         = strip (fst (DenseBlock_init fw0 2 3 4 5 (1 / 2) (0 :: nat)))" by (rule refl)
  have e: "True \<longrightarrow> (2 :: nat) * 2 * 2 \<noteq> 1" by simp
  note DenseBlock_chain [OF a b c d e, where fw = fw0 and g = 0,
      THEN conjunct2, THEN conjunct2]
  with b d show ?thesis by (intro conjI)
qed

section \<open>The transition stage\<close>

text \<open>
  Claim C5. A module with the architecture of \<^verbatim>\<open>_Transition(num_input_features,
  num_output_features)\<close> consists, in this order, of the normalization of
  \<open>num_input_features\<close> channels, the activation, the 1 by 1 convolution from
  \<open>num_input_features\<close> to \<open>num_output_features\<close> channels and the average pooling with
  window 3, stride 2 and padding 1. On an input of shape \<open>(n, num_input_features, h, w)\<close>
  that the normalization accepts (in training mode more than one value per channel,
  \<open>n * h * w \<noteq> 1\<close>) it returns a tensor with \<open>num_output_features\<close> channels, whatever
  \<open>num_input_features\<close> is. In the network, the children of \<open>hidden\<close> between the stem and
  the head are the dense blocks, each but the last followed by a transition.
\<close>

theorem Transition_stage:
  assumes arch: "strip t = strip (fst (Transition_init fw' num_input_features num_output_features g0))"
      and ok: "tensor_ok x"
      and sx: "shape x = [n, num_input_features, h, w]"
      and bn: "training \<longrightarrow> n * h * w \<noteq> 1"
  shows "strip t = Transition
           [(''norm'', Torch (BatchNorm2d num_input_features) [] []),
            (''swish'', Swish),
            (''conv'', Torch (Conv2d num_input_features num_output_features 1 (1, 1) 0 False) [] []),
            (''pool'', Torch (AvgPool2d 3 (2, 2) 1) [] [])]
       \<and> (\<exists>y. fst (forward fw training t g x) = Inr y
             \<and> shape y = [n, num_output_features, (h + 2 * 1 - 3) div 2 + 1, (w + 2 * 1 - 3) div 2 + 1])
       \<and> (\<exists>cs. hidden (fst (DenseNet_init fw x_dim' y_dim' growth_rate block_config
                                num_init_features bn_size drop_rate eps' g1)) = Sequential cs
             \<and> map (\<lambda>c. class_name (snd c)) cs =
                 [''View'', ''Conv2d'', ''BatchNorm2d'', ''Swish'', ''MaxPool2d'']
                 @ concat (map (\<lambda>i. if i + 1 < length block_config
                                     then [''_DenseBlock'', ''_Transition'']
                                     else [''_DenseBlock'']) [0..<length block_config])
                 @ [''BatchNorm2d'', ''Swish'', ''AvgPool2d'', ''View'', ''Linear''])"
proof -
  from ok sx have pos: "0 < h" "0 < w" by (simp_all add: tensor_ok_def)
  from arch have a: "strip t = Transition
           [(''norm'', Torch (BatchNorm2d num_input_features) [] []),
            (''swish'', Swish),
            (''conv'', Torch (Conv2d num_input_features num_output_features 1 (1, 1) 0 False) [] []),
            (''pool'', Torch (AvgPool2d 3 (2, 2) 1) [] [])]"
    by (simp add: strip_Transition_init)
  have "shape_forward training t [n, num_input_features, h, w]
      = shape_forward training (strip t) [n, num_input_features, h, w]"
    by (simp add: shape_strip)
  also have "\<dots> = Inr [n, num_output_features, (h + 2 * 1 - 3) div 2 + 1, (w + 2 * 1 - 3) div 2 + 1]"
    unfolding a using pos bn by (simp add: window_def)
  finally have "result_shape (fst (forward fw training t g x))
      = Inr [n, num_output_features, (h + 2 * 1 - 3) div 2 + 1, (w + 2 * 1 - 3) div 2 + 1]"
    by (simp add: forward_shape sx)
  then have "\<exists>y. fst (forward fw training t g x) = Inr y
             \<and> shape y = [n, num_output_features, (h + 2 * 1 - 3) div 2 + 1, (w + 2 * 1 - 3) div 2 + 1]"
    by (cases "fst (forward fw training t g x)") auto
  with a DenseNet_init_class_names [of fw x_dim' y_dim' growth_rate block_config
                                        num_init_features bn_size drop_rate eps' g1]
  show ?thesis by (intro conjI)
qed

theorem Transition_stage_witness:
  "tensor_ok (Tensor [2, 3, 2, 2] (replicate 24 (0 :: int)))
   \<and> (\<exists>y. fst (forward fw0 True (fst (Transition_init fw0 3 7 0)) 0
                  (Tensor [2, 3, 2, 2] (replicate 24 0))) = Inr y
           \<and> shape y = [2, 7, (2 + 2 * 1 - 3) div 2 + 1, (2 + 2 * 1 - 3) div 2 + 1])"
proof -
  have b: "tensor_ok (Tensor [2, 3, 2, 2] (replicate 24 (0 :: int)))" by (simp add: tensor_ok_def)
  have c: "shape (Tensor [2, 3, 2, 2] (replicate 24 (0 :: int))) = [2, 3, 2, 2]" by simp
  have a: "strip (fst (Transition_init fw0 3 7 0))
         = strip (fst (Transition_init fw0 3 7 (0 :: nat)))" by (rule refl)
  have e: "True \<longrightarrow> (2 :: nat) * 2 * 2 \<noteq> 1" by simp
  note Transition_stage [OF a b c e, where fw = fw0 and g = 0,
      THEN conjunct2, THEN conjunct1]
  with b show ?thesis by (intro conjI)
qed

section \<open>Stem and head\<close>

text \<open>
  Claim C6. The children of \<open>hidden\<close> in a constructed network are, in this order: the stem,
  that is the reshape to \<open>(-1, 2, 129, 21)\<close>, the 3 by 3 convolution with padding 1 from 2 to
  \<open>num_init_features\<close> channels, the normalization, the activation and the max pooling with
  window 3, stride \<open>(2, 1)\<close> and padding 1; then dense blocks and transitions; then the
  head, that is the normalization, the activation, the average pooling with window 2 and
  stride 1, the reshape to \<open>(-1, 195 * 4)\<close> and the linear layer from \<open>195 * 4\<close> features
  to \<open>y_dim\<close> labels.
\<close>

theorem stem_and_head:
  "\<exists>middle num_features.
     strip (hidden (fst (DenseNet_init fw x_dim' y_dim' growth_rate block_config
                           num_init_features bn_size drop_rate eps' g))) =
       Sequential
        ([(''view.i'', View [- 1, 2, 129, 21]),
          (''conv.i'', Torch (Conv2d 2 num_init_features 3 (1, 1) 1 False) [] []),
          (''norm.i'', Torch (BatchNorm2d num_init_features) [] []),
          (''swish.i'', Swish),
          (''pool.i'', Torch (MaxPool2d 3 (2, 1) 1) [] [])]
         @ middle @
         [(''norm.f'', Torch (BatchNorm2d num_features) [] []),
          (''swish.f'', Swish),
          (''pool.f'', Torch (AvgPool2d 2 (1, 1) 0) [] []),
          (''view.f'', View [- 1, 195 * 4]),
          (''class.f'', Torch (Linear (195 * 4) y_dim') [] [])])
     \<and> list_all (\<lambda>c. class_name (snd c) = ''_DenseBlock'' \<or> class_name (snd c) = ''_Transition'')
          middle"
proof -
  from assemble_arch [of fw growth_rate block_config num_init_features bn_size drop_rate y_dim' g]
  obtain mid where
    a: "strip (fst (assemble fw growth_rate block_config num_init_features bn_size drop_rate y_dim' g)) =
       Sequential
        ([(''view.i'', View [- 1, 2, 129, 21]),
          (''conv.i'', Torch (Conv2d 2 num_init_features 3 (1, 1) 1 False) [] []),
          (''norm.i'', Torch (BatchNorm2d num_init_features) [] []),
          (''swish.i'', Swish),
          (''pool.i'', Torch (MaxPool2d 3 (2, 1) 1) [] [])]
         @ mid @
         [(''norm.f'', Torch (BatchNorm2d
              (fst (snd (blocks_loop fw bn_size growth_rate drop_rate (length block_config)
                           (enumerate 0 block_config)
                           (fst (stem fw num_init_features g)) num_init_features
                           (snd (stem fw num_init_features g)))))) [] []),
          (''swish.f'', Swish),
          (''pool.f'', Torch (AvgPool2d 2 (1, 1) 0) [] []),
          (''view.f'', View [- 1, 195 * 4]),
          (''class.f'', Torch (Linear (195 * 4) y_dim') [] [])])"
    and m: "map (\<lambda>c. class_name (snd c)) mid =
         concat (map (\<lambda>i. if i + 1 < length block_config then [''_DenseBlock'', ''_Transition'']
                           else [''_DenseBlock'']) [0..<length block_config])"
    by (elim exE conjE)
  have "\<forall>s \<in> set (map (\<lambda>c. class_name (snd c)) mid). s = ''_DenseBlock'' \<or> s = ''_Transition''"
    unfolding m by (simp split: if_splits)
  then have "list_all (\<lambda>c. class_name (snd c) = ''_DenseBlock'' \<or> class_name (snd c) = ''_Transition'') mid"
    by (simp add: list_all_iff)
  with a show ?thesis unfolding DenseNet_init_arch by (intro exI conjI)
qed

section \<open>Initialization\<close>

text \<open>
  Claim C7. After construction the initialization pass of \<open>DenseNet.__init__\<close> has left every
  \<open>BatchNorm2d\<close> of \<open>hidden\<close> with weight all ones and bias all zeros, and the \<open>Linear\<close> layer with
  bias all zeros (\<open>initialized\<close> holds of every module of the tree), while the weight of the linear
  layer is still the tensor its constructor created (the pass does not touch it, whereas every
  convolution weight is refilled by \<open>kaiming_normal\<close>: the convolution weights of \<open>hidden\<close> are
  the variance-scaled fills of their shapes, drawn one after the other from the generator
  state that the constructors left).  Running the pass on the assembled tree from two
  generator states gives trees that differ at most in convolution weights, and they do differ
  there as soon as the two states draw a different value for some element of the first
  convolution.  Constructing the network from another seed gives the same normalization
  weights, normalization biases and linear bias, and different convolution weights as soon
  as the generator states reached after the constructors draw a different value for some
  element of the first convolution.
\<close>

theorem initialization_pass:
  assumes "assembled = assemble fw growth_rate block_config num_init_features bn_size drop_rate y_dim' g0"
      and "net = fst (DenseNet_init fw x_dim' y_dim' growth_rate block_config num_init_features
                        bn_size drop_rate eps' g0)"
  shows "hidden net = fst (init_module fw (fst assembled) (snd assembled))
       \<and> list_all initialized (modules (hidden net))
       \<and> linear_weights (hidden net) = linear_weights (fst assembled)
       \<and> conv_weights (hidden net) = kaiming_fills fw (snd assembled) (conv_shapes (fst assembled))
       \<and> (\<forall>g1 g2. forget_conv (fst (init_module fw (fst assembled) g1))
                  = forget_conv (fst (init_module fw (fst assembled) g2)))
       \<and> (\<forall>g1 g2 i. i < prod_list [num_init_features, 2, 3, 3] \<longrightarrow>
              fw_kaiming_normal fw g1 [num_init_features, 2, 3, 3] i
                \<noteq> fw_kaiming_normal fw g2 [num_init_features, 2, 3, 3] i \<longrightarrow>
              conv_weights (fst (init_module fw (fst assembled) g1))
                \<noteq> conv_weights (fst (init_module fw (fst assembled) g2)))
       \<and> (\<forall>g0'. fixed_params
                   (hidden (fst (DenseNet_init fw x_dim' y_dim' growth_rate block_config
                                   num_init_features bn_size drop_rate eps' g0')))
                = fixed_params (hidden net))
       \<and> (\<forall>g0' i. i < prod_list [num_init_features, 2, 3, 3] \<longrightarrow>
              fw_kaiming_normal fw (snd assembled) [num_init_features, 2, 3, 3] i
                \<noteq> fw_kaiming_normal fw
                     (snd (assemble fw growth_rate block_config num_init_features bn_size
                             drop_rate y_dim' g0'))
                     [num_init_features, 2, 3, 3] i \<longrightarrow>
              conv_weights (hidden net)
                \<noteq> conv_weights
                     (hidden (fst (DenseNet_init fw x_dim' y_dim' growth_rate block_config
                                     num_init_features bn_size drop_rate eps' g0'))))"
proof -
  have a: "hidden net = fst (init_module fw (fst assembled) (snd assembled))"
    unfolding assms by (rule DenseNet_init_hidden)
  have b: "list_all initialized (modules (hidden net))"
    unfolding assms(2) by (rule DenseNet_init_initialized)
  have c: "linear_weights (hidden net) = linear_weights (fst assembled)"
    unfolding a by (rule init_module_linear_weights)
  have k: "conv_weights (hidden net) = kaiming_fills fw (snd assembled) (conv_shapes (fst assembled))"
    unfolding assms by (rule DenseNet_init_conv_weights)
  have d: "forget_conv (fst (init_module fw (fst assembled) g1))
         = forget_conv (fst (init_module fw (fst assembled) g2))" for g1 g2
    using init_module_forget_conv(1) [of fw "fst assembled" g1] by simp
  have p: "conv_weights (fst (init_module fw (fst assembled) g1))
                \<noteq> conv_weights (fst (init_module fw (fst assembled) g2))"
    if "i < prod_list [num_init_features, 2, 3, 3]"
       "fw_kaiming_normal fw g1 [num_init_features, 2, 3, 3] i
                \<noteq> fw_kaiming_normal fw g2 [num_init_features, 2, 3, 3] i" for g1 g2 i
    unfolding assms(1) using that by (rule init_pass_conv_differ)
  have e: "fixed_params
                   (hidden (fst (DenseNet_init fw x_dim' y_dim' growth_rate block_config
                                   num_init_features bn_size drop_rate eps' g0')))
                = fixed_params (hidden net)" for g0'
    unfolding assms(2)
    by (simp only: DenseNet_init_fixed_params [where fw' = fw and g' = g0])
  have q: "conv_weights (hidden net)
                \<noteq> conv_weights
                     (hidden (fst (DenseNet_init fw x_dim' y_dim' growth_rate block_config
                                     num_init_features bn_size drop_rate eps' g0')))"
    if "i < prod_list [num_init_features, 2, 3, 3]"
       "fw_kaiming_normal fw (snd assembled) [num_init_features, 2, 3, 3] i
                \<noteq> fw_kaiming_normal fw
                     (snd (assemble fw growth_rate block_config num_init_features bn_size
                             drop_rate y_dim' g0'))
                     [num_init_features, 2, 3, 3] i" for g0' i
    using that unfolding assms by (rule DenseNet_init_conv_differ)
  from a b c k d p e q show ?thesis by (intro conjI allI impI)
qed

theorem initialization_pass_witness:
  "list_all initialized (modules (hidden (fst (DenseNet_init fw0 4 2 2 [1] 2 2 0 (1 / 10) 0))))
   \<and> linear_weights (hidden (fst (DenseNet_init fw0 4 2 2 [1] 2 2 0 (1 / 10) 0)))
       = linear_weights (fst (assemble fw0 2 [1] 2 2 0 2 0))
   \<and> conv_weights (hidden (fst (DenseNet_init fw0 4 2 2 [1] 2 2 0 (1 / 10) 0)))
       = kaiming_fills fw0 (snd (assemble fw0 2 [1] 2 2 0 2 0))
           (conv_shapes (fst (assemble fw0 2 [1] 2 2 0 2 0)))
   \<and> forget_conv (fst (init_module fw0 (fst (assemble fw0 2 [1] 2 2 0 2 0)) 0))
       = forget_conv (fst (init_module fw0 (fst (assemble fw0 2 [1] 2 2 0 2 0)) 1))
   \<and> conv_weights (fst (init_module fw0 (fst (assemble fw0 2 [1] 2 2 0 2 0)) 0))
       \<noteq> conv_weights (fst (init_module fw0 (fst (assemble fw0 2 [1] 2 2 0 2 0)) 1))
   \<and> fixed_params (hidden (fst (DenseNet_init fw0 4 2 2 [1] 2 2 0 (1 / 10) 1)))
       = fixed_params (hidden (fst (DenseNet_init fw0 4 2 2 [1] 2 2 0 (1 / 10) 0)))
   \<and> conv_weights (hidden (fst (DenseNet_init fw0 4 2 2 [1] 2 2 0 (1 / 10) 0)))
       \<noteq> conv_weights (hidden (fst (DenseNet_init fw0 4 2 2 [1] 2 2 0 (1 / 10) 1)))"
proof -
  note T = initialization_pass
      [OF refl [of "assemble fw0 2 [1] 2 2 0 2 0"]
          refl [of "fst (DenseNet_init fw0 4 2 2 [1] 2 2 0 (1 / 10) 0)"]]
  have i: "(0 :: nat) < prod_list [2, 2, 3, 3]" by simp
  have p: "fw_kaiming_normal fw0 0 [2, 2, 3, 3] 0 \<noteq> fw_kaiming_normal fw0 1 [2, 2, 3, 3] 0"
    by (simp add: fw0_def)
  have q: "fw_kaiming_normal fw0 (snd (assemble fw0 2 [1] 2 2 0 2 0)) [2, 2, 3, 3] 0
         \<noteq> fw_kaiming_normal fw0 (snd (assemble fw0 2 [1] 2 2 0 2 1)) [2, 2, 3, 3] 0"
    by (simp add: assemble_def stem_def head_def DenseBlock_init_def DenseLayer_init_def
      Transition_init_def torch_init_def Let_def split_beta fw0_def str_nat.simps digit_def)
  note T2 = T [THEN conjunct2]
  note T3 = T2 [THEN conjunct2]
  note T4 = T3 [THEN conjunct2]
  note T5 = T4 [THEN conjunct2]
  note T6 = T5 [THEN conjunct2]
  note T7 = T6 [THEN conjunct2]
  show ?thesis
  proof (intro conjI)
    show "list_all initialized (modules (hidden (fst (DenseNet_init fw0 4 2 2 [1] 2 2 0 (1 / 10) 0))))"
      by (rule T2 [THEN conjunct1])
    show "linear_weights (hidden (fst (DenseNet_init fw0 4 2 2 [1] 2 2 0 (1 / 10) 0)))
       = linear_weights (fst (assemble fw0 2 [1] 2 2 0 2 0))"
      by (rule T3 [THEN conjunct1])
    show "conv_weights (hidden (fst (DenseNet_init fw0 4 2 2 [1] 2 2 0 (1 / 10) 0)))
       = kaiming_fills fw0 (snd (assemble fw0 2 [1] 2 2 0 2 0))
           (conv_shapes (fst (assemble fw0 2 [1] 2 2 0 2 0)))"
      by (rule T4 [THEN conjunct1])
    show "forget_conv (fst (init_module fw0 (fst (assemble fw0 2 [1] 2 2 0 2 0)) 0))
       = forget_conv (fst (init_module fw0 (fst (assemble fw0 2 [1] 2 2 0 2 0)) 1))"
      by (rule T5 [THEN conjunct1, rule_format])
    show "conv_weights (fst (init_module fw0 (fst (assemble fw0 2 [1] 2 2 0 2 0)) 0))
       \<noteq> conv_weights (fst (init_module fw0 (fst (assemble fw0 2 [1] 2 2 0 2 0)) 1))"
      by (rule T6 [THEN conjunct1, rule_format, OF i p])
    show "fixed_params (hidden (fst (DenseNet_init fw0 4 2 2 [1] 2 2 0 (1 / 10) 1)))
       = fixed_params (hidden (fst (DenseNet_init fw0 4 2 2 [1] 2 2 0 (1 / 10) 0)))"
      by (rule T7 [THEN conjunct1, rule_format])
    show "conv_weights (hidden (fst (DenseNet_init fw0 4 2 2 [1] 2 2 0 (1 / 10) 0)))
       \<noteq> conv_weights (hidden (fst (DenseNet_init fw0 4 2 2 [1] 2 2 0 (1 / 10) 1)))"
      by (rule T7 [THEN conjunct2, rule_format, OF i q])
  qed
qed

end
